theory Spec2Isabelle
  imports Complex_Main
begin

section \<open>JavaScript values used by the analytics handlers\<close>

text \<open>
  The four analytics handlers of \<^verbatim>\<open>src/tools/discounts.ts\<close> compute with JavaScript
  numbers. A number is modelled as a finite real, one of the two infinities, or NaN.
  Finite doubles are idealised as reals: rounding of the binary representation,
  overflow of a finite result and the sign of zero are not modelled. Everything the
  handlers do with a non-finite operand (division by zero, an unparseable amount) is.
\<close>

datatype jsnum = Fin real | PInf | NInf | NaN

fun jneg :: "jsnum \<Rightarrow> jsnum" where
  "jneg (Fin a) = Fin (- a)"
| "jneg PInf = NInf"
| "jneg NInf = PInf"
| "jneg NaN = NaN"

fun jadd :: "jsnum \<Rightarrow> jsnum \<Rightarrow> jsnum" where
  "jadd (Fin a) (Fin b) = Fin (a + b)"
| "jadd NaN _ = NaN"
| "jadd _ NaN = NaN"
| "jadd PInf NInf = NaN"
| "jadd NInf PInf = NaN"
| "jadd PInf _ = PInf"
| "jadd _ PInf = PInf"
| "jadd NInf _ = NInf"
| "jadd _ NInf = NInf"

definition jsub :: "jsnum \<Rightarrow> jsnum \<Rightarrow> jsnum" where
  "jsub a b = jadd a (jneg b)"

text \<open>An infinity times a finite number: NaN at zero, else the sign decides.\<close>

definition infTimes :: "bool \<Rightarrow> real \<Rightarrow> jsnum" where
  "infTimes positive b =
     (if b = 0 then NaN else if (0 < b) = positive then PInf else NInf)"

fun jmul :: "jsnum \<Rightarrow> jsnum \<Rightarrow> jsnum" where
  "jmul (Fin a) (Fin b) = Fin (a * b)"
| "jmul NaN _ = NaN"
| "jmul _ NaN = NaN"
| "jmul PInf (Fin b) = infTimes True b"
| "jmul NInf (Fin b) = infTimes False b"
| "jmul (Fin a) PInf = infTimes True a"
| "jmul (Fin a) NInf = infTimes False a"
| "jmul PInf PInf = PInf"
| "jmul PInf NInf = NInf"
| "jmul NInf PInf = NInf"
| "jmul NInf NInf = PInf"

text \<open>
  Division never raises in JavaScript: a non-zero number over zero is an infinity and
  zero over zero is NaN (the zero divisor is taken as positive).
\<close>

fun jdiv :: "jsnum \<Rightarrow> jsnum \<Rightarrow> jsnum" where
  "jdiv (Fin a) (Fin b) =
     (if b = 0 then (if a = 0 then NaN else if 0 < a then PInf else NInf)
      else Fin (a / b))"
| "jdiv NaN _ = NaN"
| "jdiv _ NaN = NaN"
| "jdiv (Fin a) PInf = Fin 0"
| "jdiv (Fin a) NInf = Fin 0"
| "jdiv PInf (Fin b) = (if 0 \<le> b then PInf else NInf)"
| "jdiv NInf (Fin b) = (if 0 \<le> b then NInf else PInf)"
| "jdiv PInf PInf = NaN"
| "jdiv PInf NInf = NaN"
| "jdiv NInf PInf = NaN"
| "jdiv NInf NInf = NaN"

text \<open>The comparison \<^verbatim>\<open>a > b\<close>: false as soon as one side is NaN.\<close>

fun jgt :: "jsnum \<Rightarrow> jsnum \<Rightarrow> bool" where
  "jgt (Fin a) (Fin b) = (b < a)"
| "jgt NaN _ = False"
| "jgt _ NaN = False"
| "jgt PInf PInf = False"
| "jgt PInf _ = True"
| "jgt NInf _ = False"
| "jgt (Fin a) NInf = True"
| "jgt (Fin a) PInf = False"


fun isFinite :: "jsnum \<Rightarrow> bool" where
  "isFinite (Fin a) = True"
| "isFinite _ = False"

fun Math_sqrt :: "jsnum \<Rightarrow> jsnum" where
  "Math_sqrt (Fin a) = (if a < 0 then NaN else Fin (sqrt a))"
| "Math_sqrt PInf = PInf"
| "Math_sqrt NInf = NaN"
| "Math_sqrt NaN = NaN"

text \<open>\<^verbatim>\<open>Math.round\<close> rounds to the nearest integer, a tie towards plus infinity.\<close>

fun Math_round :: "jsnum \<Rightarrow> jsnum" where
  "Math_round (Fin a) = Fin (of_int \<lfloor>a + 1 / 2\<rfloor>)"
| "Math_round x = x"

definition ofNat :: "nat \<Rightarrow> jsnum" where
  "ofNat n = Fin (of_nat n)"

subsection \<open>Strings\<close>

text \<open>
  Strings are lists of characters, a character being a code unit below 256; the inputs
  of interest (URLs, decimal amounts) are ASCII. \<^verbatim>\<open>s.includes(t)\<close> is containment of \<open>t\<close>
  as a contiguous piece of \<open>s\<close>.
\<close>

fun startsWith :: "string \<Rightarrow> string \<Rightarrow> bool" where
  "startsWith s [] = True"
| "startsWith [] (c # t) = False"
| "startsWith (d # s) (c # t) = (d = c \<and> startsWith s t)"

fun stringIncludes :: "string \<Rightarrow> string \<Rightarrow> bool" where
  "stringIncludes [] t = (t = [])"
| "stringIncludes (c # s) t = (startsWith (c # s) t \<or> stringIncludes s t)"

definition endsWith :: "string \<Rightarrow> string \<Rightarrow> bool" where
  "endsWith s t = (length t \<le> length s \<and> drop (length s - length t) s = t)"

text \<open>
  \<^verbatim>\<open>toLowerCase\<close> on these characters: the letters A to Z, and the accented capitals
  \<open>0xC0\<close> to \<open>0xDE\<close> without the multiplication sign \<open>0xD7\<close>, move up by 32.
\<close>

definition upperLetters :: string where
  "upperLetters =
     ''ABCDEFGHIJKLMNOPQRSTUVWXYZ''
     @ [CHR 0xC0, CHR 0xC1, CHR 0xC2, CHR 0xC3, CHR 0xC4, CHR 0xC5, CHR 0xC6, CHR 0xC7,
        CHR 0xC8, CHR 0xC9, CHR 0xCA, CHR 0xCB, CHR 0xCC, CHR 0xCD, CHR 0xCE, CHR 0xCF,
        CHR 0xD0, CHR 0xD1, CHR 0xD2, CHR 0xD3, CHR 0xD4, CHR 0xD5, CHR 0xD6,
        CHR 0xD8, CHR 0xD9, CHR 0xDA, CHR 0xDB, CHR 0xDC, CHR 0xDD, CHR 0xDE]"

definition lowerLetters :: string where
  "lowerLetters =
     ''abcdefghijklmnopqrstuvwxyz''
     @ [CHR 0xE0, CHR 0xE1, CHR 0xE2, CHR 0xE3, CHR 0xE4, CHR 0xE5, CHR 0xE6, CHR 0xE7,
        CHR 0xE8, CHR 0xE9, CHR 0xEA, CHR 0xEB, CHR 0xEC, CHR 0xED, CHR 0xEE, CHR 0xEF,
        CHR 0xF0, CHR 0xF1, CHR 0xF2, CHR 0xF3, CHR 0xF4, CHR 0xF5, CHR 0xF6,
        CHR 0xF8, CHR 0xF9, CHR 0xFA, CHR 0xFB, CHR 0xFC, CHR 0xFD, CHR 0xFE]"

definition isUpper :: "char \<Rightarrow> bool" where
  "isUpper c =
     (let n = (of_char c :: nat)
      in (65 \<le> n \<and> n \<le> 90) \<or> (192 \<le> n \<and> n \<le> 222 \<and> n \<noteq> 215))"

definition toLowerChar :: "char \<Rightarrow> char" where
  "toLowerChar c =
     (if isUpper c
      then (case map_of (zip upperLetters lowerLetters) c of None \<Rightarrow> c | Some l \<Rightarrow> l)
      else c)"

definition toLowerCase :: "string \<Rightarrow> string" where
  "toLowerCase s = map toLowerChar s"

text \<open>\<^verbatim>\<open>a || d\<close> on an optional string: the default for undefined, null and the empty string.\<close>

definition orDefault :: "string option \<Rightarrow> string \<Rightarrow> string" where
  "orDefault a d = (case a of None \<Rightarrow> d | Some s \<Rightarrow> if s = [] then d else s)"

subsection \<open>parseFloat\<close>

definition isDigit :: "char \<Rightarrow> bool" where
  "isDigit c = (48 \<le> (of_char c :: nat) \<and> (of_char c :: nat) \<le> 57)"

definition digitVal :: "char \<Rightarrow> nat" where
  "digitVal c = (of_char c :: nat) - 48"

definition natOfDigits :: "string \<Rightarrow> nat" where
  "natOfDigits ds = foldl (\<lambda>n c. 10 * n + digitVal c) 0 ds"

definition isWhiteSpace :: "char \<Rightarrow> bool" where
  "isWhiteSpace c = ((of_char c :: nat) \<in> {9, 10, 11, 12, 13, 32, 160})"

text \<open>
  The exponent part \<^verbatim>\<open>e\<close>/\<^verbatim>\<open>E\<close>, an optional sign and at least one digit. Each scanner
  returns what it read and the rest of the string.
\<close>

definition scanExponent :: "string \<Rightarrow> int \<times> string" where
  "scanExponent r =
     (case r of
        [] \<Rightarrow> (0, r)
      | c # r1 \<Rightarrow>
          if c = CHR ''e'' \<or> c = CHR ''E'' then
            (case r1 of
               [] \<Rightarrow> (0, r)
             | s # r2 \<Rightarrow>
                 if s = CHR ''-'' \<or> s = CHR ''+'' then
                   (if takeWhile isDigit r2 = [] then (0, r)
                    else ((if s = CHR ''-'' then - 1 else 1) * int (natOfDigits (takeWhile isDigit r2)),
                          dropWhile isDigit r2))
                 else if takeWhile isDigit r1 = [] then (0, r)
                 else (int (natOfDigits (takeWhile isDigit r1)), dropWhile isDigit r1))
          else (0, r))"

definition pow10 :: "int \<Rightarrow> real" where
  "pow10 e = (if 0 \<le> e then 10 ^ nat e else 1 / 10 ^ nat (- e))"

text \<open>
  An unsigned decimal literal: \<^verbatim>\<open>Infinity\<close>, or digits with an optional fraction, or a
  fraction alone, each with an optional exponent. No digit at all gives NaN.
\<close>

definition scanUnsigned :: "string \<Rightarrow> jsnum \<times> string" where
  "scanUnsigned s =
     (if startsWith s ''Infinity'' then (PInf, drop 8 s)
      else
        let ip = takeWhile isDigit s;
            r = dropWhile isDigit s;
            fp = (case r of [] \<Rightarrow> [] | c # r1 \<Rightarrow>
                    if c = CHR ''.'' then takeWhile isDigit r1 else []);
            r2 = (case r of [] \<Rightarrow> [] | c # r1 \<Rightarrow>
                    if c = CHR ''.'' then dropWhile isDigit r1 else r)
        in if ip = [] \<and> fp = [] then (NaN, s)
           else (Fin (real (natOfDigits (ip @ fp)) / 10 ^ length fp * pow10 (fst (scanExponent r2))),
                 snd (scanExponent r2)))"

definition scanSigned :: "string \<Rightarrow> jsnum \<times> string" where
  "scanSigned s =
     (case s of
        [] \<Rightarrow> (NaN, s)
      | c # r \<Rightarrow>
          if c = CHR ''-'' then (jneg (fst (scanUnsigned r)), snd (scanUnsigned r))
          else if c = CHR ''+'' then scanUnsigned r
          else scanUnsigned (c # r))"

text \<open>
  \<^verbatim>\<open>parseFloat\<close> skips leading white space and reads the longest numeric prefix. The
  prefix is read as the real number that it denotes; the rounding to a double, and with
  it the overflow of a numeral beyond the largest double, is not modelled.
\<close>

definition parseFloat :: "string \<Rightarrow> jsnum" where
  "parseFloat s = fst (scanSigned (dropWhile isWhiteSpace s))"

text \<open>
  The conversion of a string operand of \<^verbatim>\<open>>\<close> to a number: the empty string is 0 and
  the whole trimmed string must be a decimal literal, else NaN. Hexadecimal, octal and
  binary literals are not modelled.
\<close>

definition stringToNumber :: "string \<Rightarrow> jsnum" where
  "stringToNumber s =
     (let t = dropWhile isWhiteSpace s in
      if t = [] then Fin 0
      else if dropWhile isWhiteSpace (snd (scanSigned t)) = [] then fst (scanSigned t)
      else NaN)"

subsection \<open>toFixed\<close>

text \<open>
  \<^verbatim>\<open>x.toFixed(d)\<close>: the integer \<open>n\<close> nearest to \<open>|x| * 10^d\<close> (the larger one at a tie),
  written with at least \<open>d + 1\<close> digits and a point before the last \<open>d\<close>; a minus sign for
  negative \<open>x\<close>. The exponential form that JavaScript uses from \<open>10^21\<close> on is not modelled.
\<close>

definition digitChar :: "nat \<Rightarrow> char" where
  "digitChar n = ''0123456789'' ! (n mod 10)"

fun showNat :: "nat \<Rightarrow> string" where
  "showNat n =
     (if n < 10 then [digitChar n]
      else showNat (n div 10) @ [digitChar (n mod 10)])"

declare showNat.simps [simp del]

definition roundHalfUp :: "real \<Rightarrow> nat" where
  "roundHalfUp x = nat \<lfloor>x + 1 / 2\<rfloor>"

definition fixedDigits :: "nat \<Rightarrow> nat \<Rightarrow> string" where
  "fixedDigits d n =
     (let m = replicate (d + 1 - length (showNat n)) (CHR ''0'') @ showNat n;
          k = length m - d
      in if d = 0 then m else take k m @ ''.'' @ drop k m)"

fun toFixed :: "nat \<Rightarrow> jsnum \<Rightarrow> string" where
  "toFixed d (Fin a) =
     (if a < 0 then ''-'' @ fixedDigits d (roundHalfUp (- a * 10 ^ d))
      else fixedDigits d (roundHalfUp (a * 10 ^ d)))"
| "toFixed d NaN = ''NaN''"
| "toFixed d PInf = ''Infinity''"
| "toFixed d NInf = ''-Infinity''"

section \<open>Order records and the Record Aggregator\<close>

text \<open>
  The fields of an order node of \<^verbatim>\<open>ORDERS_ANALYTICS_QUERY\<close> that the handlers read.
  An absent link of \<^verbatim>\<open>o.totalPriceSet?.shopMoney?.amount\<close> is \<open>None\<close>; \<open>createdAt\<close> is
  the time value of \<^verbatim>\<open>new Date(order.createdAt)\<close> in milliseconds.
  \<^verbatim>\<open>ordersCount\<close> is a number where the handlers compare it with 1 and a string in the
  \<^verbatim>\<open>Customer\<close> interface of \<^verbatim>\<open>types.ts\<close>, so both are kept.
\<close>

datatype jsval = JNumber jsnum | JString string | JUndefined

record customer_ref =
  customer_id :: string
  ordersCount :: jsval

record order =
  createdAt :: int
  amount :: "string option"
  lineItems :: "int list"
  customer :: "customer_ref option"
  referrerUrl :: "string option"
  landingPageUrl :: "string option"

text \<open>\<^verbatim>\<open>parseFloat(o.totalPriceSet?.shopMoney?.amount || "0")\<close>\<close>

definition orderAmount :: "order \<Rightarrow> jsnum" where
  "orderAmount od = parseFloat (orDefault (amount od) ''0'')"

text \<open>\<^verbatim>\<open>orders.reduce((sum, o) => sum + parseFloat(...), 0)\<close>\<close>

definition totalRevenue :: "order list \<Rightarrow> jsnum" where
  "totalRevenue orders = foldl (\<lambda>sum od. jadd sum (orderAmount od)) (Fin 0) orders"

definition totalOrders :: "order list \<Rightarrow> nat" where
  "totalOrders orders = length orders"

definition totalItems :: "order list \<Rightarrow> int" where
  "totalItems orders =
     foldl (\<lambda>sum od. sum + foldl (\<lambda>s q. s + q) 0 (lineItems od)) 0 orders"

text \<open>\<^verbatim>\<open>totalOrders > 0 ? totalRevenue / totalOrders : 0\<close>\<close>

definition avgOrderValue :: "order list \<Rightarrow> jsnum" where
  "avgOrderValue orders =
     (if 0 < totalOrders orders then jdiv (totalRevenue orders) (ofNat (totalOrders orders))
      else Fin 0)"

subsection \<open>Customers\<close>

text \<open>
  \<^verbatim>\<open>new Set(orders.filter(o => o.customer?.id).map(o => o.customer.id)).size\<close>: an order
  without a customer, or with an empty id, is filtered out.
\<close>

definition customerIdOf :: "order \<Rightarrow> string option" where
  "customerIdOf od =
     (case customer od of
        None \<Rightarrow> None
      | Some c \<Rightarrow> if customer_id c = [] then None else Some (customer_id c))"

definition uniqueCustomers :: "order list \<Rightarrow> nat" where
  "uniqueCustomers orders = length (remdups (List.map_filter customerIdOf orders))"

fun toNumber :: "jsval \<Rightarrow> jsnum" where
  "toNumber (JNumber n) = n"
| "toNumber (JString s) = stringToNumber s"
| "toNumber JUndefined = NaN"

text \<open>\<^verbatim>\<open>o.customer?.ordersCount > 1\<close>: undefined without a customer, and undefined is not above 1.\<close>

definition ordersCountAbove1 :: "order \<Rightarrow> bool" where
  "ordersCountAbove1 od =
     (case customer od of
        None \<Rightarrow> False
      | Some c \<Rightarrow> jgt (toNumber (ordersCount c)) (Fin 1))"

text \<open>\<^verbatim>\<open>o.customer?.ordersCount === 1\<close>: strict equality, so only the number 1 passes.\<close>

definition ordersCountIs1 :: "order \<Rightarrow> bool" where
  "ordersCountIs1 od =
     (case customer od of
        None \<Rightarrow> False
      | Some c \<Rightarrow> (case ordersCount c of JNumber n \<Rightarrow> n = Fin 1 | _ \<Rightarrow> False))"

text \<open>Store analytics: the new-customer orders are all the orders that are not returning.\<close>

definition returningCustomers :: "order list \<Rightarrow> nat" where
  "returningCustomers orders = length (filter ordersCountAbove1 orders)"

definition newCustomerOrders :: "order list \<Rightarrow> nat" where
  "newCustomerOrders orders = totalOrders orders - returningCustomers orders"

text \<open>Conversion analysis: each bucket is filtered on its own.\<close>

definition conversion_newCustomerOrders :: "order list \<Rightarrow> nat" where
  "conversion_newCustomerOrders orders = length (filter ordersCountIs1 orders)"

definition returningCustomerOrders :: "order list \<Rightarrow> nat" where
  "returningCustomerOrders orders = length (filter ordersCountAbove1 orders)"

section \<open>Traffic Attributor\<close>

text \<open>
  The helper \<^verbatim>\<open>getReferrerHost\<close> hands the referrer to the URL parser of the platform and
  reads \<^verbatim>\<open>new URL(url).hostname\<close>. The parser is not code of the repository, so the model
  takes it as an argument: \<open>hostnameOf url\<close> is the hostname of the parsed URL, and
  \<open>None\<close> where the constructor throws. Every property of the attributor is proved for an
  arbitrary \<open>hostnameOf\<close>, so it holds for the parser that the process runs with.
\<close>

type_synonym url_parser = "string \<Rightarrow> string option"

text \<open>The helper \<^verbatim>\<open>getReferrerHost\<close>: null for an empty or unparseable URL.\<close>

definition getReferrerHost :: "url_parser \<Rightarrow> string \<Rightarrow> string option" where
  "getReferrerHost hostnameOf url =
     (if url = [] then None
      else case hostnameOf url of
             None \<Rightarrow> None
           | Some h \<Rightarrow> Some (toLowerCase h))"

text \<open>
  The helper \<^verbatim>\<open>matchesHost\<close>: with a non-empty host, equality with the target or a
  subdomain of it; the substring check only when the referrer gave no host.
\<close>

definition matchesHost :: "url_parser \<Rightarrow> string \<Rightarrow> string \<Rightarrow> bool" where
  "matchesHost hostnameOf ref targetHost =
     (let normalizedTarget = toLowerCase targetHost in
      case getReferrerHost hostnameOf ref of
        None \<Rightarrow> stringIncludes (toLowerCase ref) normalizedTarget
      | Some host \<Rightarrow>
          if host = [] then stringIncludes (toLowerCase ref) normalizedTarget
          else toLowerCase host = normalizedTarget
               \<or> endsWith (toLowerCase host) (''.'' @ normalizedTarget))"

text \<open>\<^verbatim>\<open>order.referrerUrl || order.landingPageUrl || ""\<close>\<close>

definition referrerOf :: "order \<Rightarrow> string" where
  "referrerOf od = orDefault (referrerUrl od) (orDefault (landingPageUrl od) [])"

text \<open>
  The source of one order: the chain of conditions of the loop over the orders, in
  its order. \<open>shopDomain\<close> is \<^verbatim>\<open>process.env.SHOPIFY_SHOP_DOMAIN\<close>.
\<close>

definition trafficSource :: "url_parser \<Rightarrow> string option \<Rightarrow> order \<Rightarrow> string" where
  "trafficSource hostnameOf shopDomain od =
     (let referrer = referrerOf od in
      if stringIncludes referrer ''google'' then ''google''
      else if stringIncludes referrer ''facebook'' \<or> stringIncludes referrer ''fb.'' then ''facebook''
      else if stringIncludes referrer ''instagram'' then ''instagram''
      else if matchesHost hostnameOf referrer ''twitter.com''
              \<or> matchesHost hostnameOf referrer ''t.co''
              \<or> matchesHost hostnameOf referrer ''x.com'' then ''twitter''
      else if stringIncludes referrer ''tiktok'' then ''tiktok''
      else if stringIncludes referrer ''email'' \<or> stringIncludes referrer ''klaviyo''
              \<or> stringIncludes referrer ''mailchimp'' then ''email''
      else if stringIncludes referrer ''pinterest'' then ''pinterest''
      else if referrer \<noteq> [] \<and> \<not> stringIncludes referrer (orDefault shopDomain []) then ''referral''
      else ''direct'')"

text \<open>\<^verbatim>\<open>trafficSources[source] = (trafficSources[source] || 0) + 1\<close>, keys in insertion order.\<close>

fun countSource :: "(string \<times> nat) list \<Rightarrow> string \<Rightarrow> (string \<times> nat) list" where
  "countSource [] k = [(k, 1)]"
| "countSource ((k', n) # m) k = (if k' = k then (k', n + 1) # m else (k', n) # countSource m k)"

definition trafficSources ::
  "url_parser \<Rightarrow> string option \<Rightarrow> order list \<Rightarrow> (string \<times> nat) list" where
  "trafficSources hostnameOf shopDomain orders =
     foldl (\<lambda>m od. countSource m (trafficSource hostnameOf shopDomain od)) [] orders"

text \<open>The platform conditions of the chain, in one predicate.\<close>

definition matchesPlatform :: "url_parser \<Rightarrow> string \<Rightarrow> bool" where
  "matchesPlatform hostnameOf referrer =
     (stringIncludes referrer ''google'' \<or> stringIncludes referrer ''facebook''
      \<or> stringIncludes referrer ''fb.'' \<or> stringIncludes referrer ''instagram''
      \<or> matchesHost hostnameOf referrer ''twitter.com''
      \<or> matchesHost hostnameOf referrer ''t.co''
      \<or> matchesHost hostnameOf referrer ''x.com'' \<or> stringIncludes referrer ''tiktok''
      \<or> stringIncludes referrer ''email'' \<or> stringIncludes referrer ''klaviyo''
      \<or> stringIncludes referrer ''mailchimp'' \<or> stringIncludes referrer ''pinterest'')"

section \<open>Period Comparator and the store analytics report\<close>

text \<open>
  The \<^verbatim>\<open>comparison\<close> object: each change is a percentage with one decimal, or the string
  \<^verbatim>\<open>"N/A"\<close> when the guard \<^verbatim>\<open>prev > 0\<close> fails.
\<close>

record comparison =
  revenue_change :: string
  orders_change :: string
  prev_revenue :: jsnum
  prev_orders :: nat

definition compare_periods :: "order list \<Rightarrow> order list \<Rightarrow> comparison" where
  "compare_periods orders prevOrders =
     (let prevRevenue = totalRevenue prevOrders;
          prevOrderCount = totalOrders prevOrders
      in \<lparr>revenue_change =
            (if jgt prevRevenue (Fin 0)
             then toFixed 1 (jmul (jdiv (jsub (totalRevenue orders) prevRevenue) prevRevenue) (Fin 100))
             else ''N/A''),
          orders_change =
            (if 0 < prevOrderCount
             then toFixed 1 (jmul (jdiv (jsub (ofNat (totalOrders orders)) (ofNat prevOrderCount))
                                        (ofNat prevOrderCount)) (Fin 100))
             else ''N/A''),
          prev_revenue = prevRevenue,
          prev_orders = prevOrderCount\<rparr>)"

text \<open>
  The report of \<^verbatim>\<open>shopify_store_analytics\<close>. The fetched collections are arguments: the
  orders of the current period, those of the previous period (\<open>None\<close> when
  \<^verbatim>\<open>compare_previous\<close> is false) and the number of new customers; so is the URL parser
  of the traffic sources. The dates of the period are left out of the record.
\<close>

record analytics =
  period_days :: real
  orders_total :: nat
  orders_daily_average :: string
  items_sold :: int
  revenue_total :: string
  revenue_daily_average :: string
  average_order_value :: string
  unique_customers :: nat
  new_customer_orders :: nat
  returning_customer_orders :: nat
  new_customers_acquired :: nat
  estimated_sessions :: jsnum
  estimated_daily_sessions :: jsnum
  sources :: "(string \<times> nat) list"
  comparison :: "comparison option"

datatype error = RangeError

text \<open>
  A Date holds a time value of at most \<open>8.64 * 10^15\<close> milliseconds in absolute value;
  \<^verbatim>\<open>toISOString\<close> throws a RangeError on any other.
\<close>

definition validTime :: "real \<Rightarrow> bool" where
  "validTime t = (\<bar>t\<bar> \<le> 8640000000000000)"

definition msPerDay :: real where
  "msPerDay = 24 * 60 * 60 * 1000"

definition shopify_store_analytics ::
  "url_parser \<Rightarrow> string option \<Rightarrow> real \<Rightarrow> real \<Rightarrow> order list \<Rightarrow> order list option
     \<Rightarrow> nat \<Rightarrow> error + analytics" where
  "shopify_store_analytics hostnameOf shopDomain now days orders previousOrders newCustomers =
     (let periodStart = now - days * msPerDay;
          previousPeriodStart = periodStart - days * msPerDay
      in if validTime now \<and> validTime periodStart
            \<and> (previousOrders = None \<or> validTime previousPeriodStart)
         then
           let dailyOrders = jdiv (ofNat (totalOrders orders)) (Fin days);
               dailyRevenue = jdiv (totalRevenue orders) (Fin days);
               estimatedSessions = Math_round (jdiv (ofNat (totalOrders orders)) (Fin 0.025));
               estimatedDailySessions = Math_round (jdiv estimatedSessions (Fin days))
           in Inr \<lparr>period_days = days,
                   orders_total = totalOrders orders,
                   orders_daily_average = toFixed 1 dailyOrders,
                   items_sold = totalItems orders,
                   revenue_total = toFixed 2 (totalRevenue orders),
                   revenue_daily_average = toFixed 2 dailyRevenue,
                   average_order_value = toFixed 2 (avgOrderValue orders),
                   unique_customers = uniqueCustomers orders,
                   new_customer_orders = newCustomerOrders orders,
                   returning_customer_orders = returningCustomers orders,
                   new_customers_acquired = newCustomers,
                   estimated_sessions = estimatedSessions,
                   estimated_daily_sessions = estimatedDailySessions,
                   sources = trafficSources hostnameOf shopDomain orders,
                   comparison = map_option (compare_periods orders) previousOrders\<rparr>
         else Inl RangeError)"

section \<open>Growth Forecaster\<close>

subsection \<open>Calendar fields of a time value\<close>

text \<open>
  \<^verbatim>\<open>getMonth()\<close> (0 for January) and \<^verbatim>\<open>getFullYear()\<close> of the Date with a given time value
  in milliseconds, for a process whose time zone is UTC. The day count is split into
  eras of 400 years that begin on 1 March; the month is counted from March and then
  shifted.
\<close>

definition dayOfEra :: "int \<Rightarrow> int" where
  "dayOfEra ms = (ms div 86400000 + 719468) mod 146097"

definition yearOfEra :: "int \<Rightarrow> int" where
  "yearOfEra ms =
     (let doe = dayOfEra ms
      in (doe - doe div 1460 + doe div 36524 - doe div 146096) div 365)"

definition dayOfYear :: "int \<Rightarrow> int" where
  "dayOfYear ms =
     (let yoe = yearOfEra ms
      in dayOfEra ms - (365 * yoe + yoe div 4 - yoe div 100))"

definition getMonth :: "int \<Rightarrow> nat" where
  "getMonth ms = nat (((5 * dayOfYear ms + 2) div 153 + 2) mod 12)"

definition getFullYear :: "int \<Rightarrow> int" where
  "getFullYear ms =
     yearOfEra ms + ((ms div 86400000 + 719468) div 146097) * 400
       + (if getMonth ms \<le> 1 then 1 else 0)"

subsection \<open>Monthly buckets\<close>

text \<open>
  \<^verbatim>\<open>monthlyData\<close> maps the key \<^verbatim>\<open>YYYY-MM\<close> of an order to its bucket, in insertion order.
  The key is kept as the pair of year and month; for years of four digits the order of
  the strings that \<^verbatim>\<open>localeCompare\<close> sees is the order of \<open>12 * year + month\<close>.
\<close>

record month_bucket =
  m_orders :: nat
  m_revenue :: jsnum

type_synonym month_key = "int \<times> nat"

definition monthKey :: "order \<Rightarrow> month_key" where
  "monthKey od = (getFullYear (createdAt od), getMonth (createdAt od) + 1)"

fun addToBucket ::
  "(month_key \<times> month_bucket) list \<Rightarrow> month_key \<Rightarrow> jsnum \<Rightarrow> (month_key \<times> month_bucket) list" where
  "addToBucket [] k a = [(k, \<lparr>m_orders = 1, m_revenue = jadd (Fin 0) a\<rparr>)]"
| "addToBucket ((k', b) # m) k a =
     (if k' = k then (k', \<lparr>m_orders = m_orders b + 1, m_revenue = jadd (m_revenue b) a\<rparr>) # m
      else (k', b) # addToBucket m k a)"

definition monthlyData :: "order list \<Rightarrow> (month_key \<times> month_bucket) list" where
  "monthlyData orders = foldl (\<lambda>m od. addToBucket m (monthKey od) (orderAmount od)) [] orders"

text \<open>The means over the buckets, with the divisor \<^verbatim>\<open>Math.max(months.length, 1)\<close>.\<close>

definition avgMonthlyOrders :: "order list \<Rightarrow> jsnum" where
  "avgMonthlyOrders orders =
     jdiv (ofNat (foldl (\<lambda>s b. s + m_orders b) 0 (map snd (monthlyData orders))))
          (ofNat (max (length (monthlyData orders)) 1))"

definition avgMonthlyRevenue :: "order list \<Rightarrow> jsnum" where
  "avgMonthlyRevenue orders =
     jdiv (foldl (\<lambda>s b. jadd s (m_revenue b)) (Fin 0) (map snd (monthlyData orders)))
          (ofNat (max (length (monthlyData orders)) 1))"

definition monthIndex :: "month_key \<Rightarrow> int" where
  "monthIndex k = 12 * fst k + int (snd k)"

definition sortedMonths :: "order list \<Rightarrow> (month_key \<times> month_bucket) list" where
  "sortedMonths orders = sort_key (\<lambda>e. monthIndex (fst e)) (monthlyData orders)"

text \<open>The growth of the last bucket over the one before, 0 with fewer than two buckets.\<close>

definition momGrowth :: "order list \<Rightarrow> jsnum" where
  "momGrowth orders =
     (case rev (sortedMonths orders) of
        lastMonth # prevMonth # _ \<Rightarrow>
          if jgt (m_revenue (snd prevMonth)) (Fin 0)
          then jdiv (jsub (m_revenue (snd lastMonth)) (m_revenue (snd prevMonth)))
                    (m_revenue (snd prevMonth))
          else Fin 0
      | _ \<Rightarrow> Fin 0)"

datatype growth_scenario = Conservative | Moderate | Aggressive

fun growthMultipliers :: "growth_scenario \<Rightarrow> real" where
  "growthMultipliers Conservative = 0.02"
| "growthMultipliers Moderate = 0.05"
| "growthMultipliers Aggressive = 0.10"

definition baseGrowthRate :: "order list \<Rightarrow> growth_scenario \<Rightarrow> jsnum" where
  "baseGrowthRate orders scenario =
     (if jgt (momGrowth orders) (Fin 0) then momGrowth orders
      else Fin (growthMultipliers scenario))"

subsection \<open>Projection\<close>

definition seasonalFactors :: "(nat \<times> real) list" where
  "seasonalFactors =
     [(1, 0.85), (2, 0.90), (3, 0.95), (4, 1.00), (5, 1.00), (6, 0.95),
      (7, 0.90), (8, 0.95), (9, 1.00), (10, 1.05), (11, 1.20), (12, 1.35)]"

text \<open>\<^verbatim>\<open>seasonalFactors[m]\<close> as a factor of a product: a missing entry is undefined, so NaN.\<close>

definition seasonalFactor :: "nat \<Rightarrow> jsnum" where
  "seasonalFactor m = (case map_of seasonalFactors m of None \<Rightarrow> NaN | Some f \<Rightarrow> Fin f)"

text \<open>\<^verbatim>\<open>new Date(now.getTime() + i * 30 * 24 * 60 * 60 * 1000).getMonth() + 1\<close>\<close>

definition futureMonth :: "int \<Rightarrow> nat \<Rightarrow> nat" where
  "futureMonth now i = getMonth (now + int i * 30 * 24 * 60 * 60 * 1000) + 1"

text \<open>
  One round of the loop \<^verbatim>\<open>for (let i = 1; i <= monthsAhead; i++)\<close> on one of the two
  projected values: the growth, then the factor of the month of step \<open>i\<close> when
  seasonality is on.
\<close>

definition projectStep :: "int \<Rightarrow> jsnum \<Rightarrow> bool \<Rightarrow> jsnum \<Rightarrow> nat \<Rightarrow> jsnum" where
  "projectStep now rate include_seasonality projected i =
     (let grown = jmul projected (jadd (Fin 1) rate)
      in if include_seasonality then jmul grown (seasonalFactor (futureMonth now i))
         else grown)"

text \<open>The loop runs for \<open>i = 1, ..., \<lfloor>monthsAhead\<rfloor>\<close>, not at all below 1.\<close>

definition projectLoop :: "int \<Rightarrow> jsnum \<Rightarrow> bool \<Rightarrow> real \<Rightarrow> jsnum \<Rightarrow> jsnum" where
  "projectLoop now rate include_seasonality monthsAhead start =
     foldl (projectStep now rate include_seasonality) start [1 ..< Suc (nat \<lfloor>monthsAhead\<rfloor>)]"

record forecast_point =
  months_ahead :: real
  projected_monthly_orders :: jsnum
  projected_monthly_revenue :: string
  projected_monthly_sessions :: jsnum
  growth_from_current :: string

definition forecastPoint ::
  "int \<Rightarrow> jsnum \<Rightarrow> jsnum \<Rightarrow> jsnum \<Rightarrow> bool \<Rightarrow> real \<Rightarrow> forecast_point" where
  "forecastPoint now avgOrders avgRevenue rate include_seasonality monthsAhead =
     (let projectedOrders = projectLoop now rate include_seasonality monthsAhead avgOrders;
          projectedRevenue = projectLoop now rate include_seasonality monthsAhead avgRevenue
      in \<lparr>months_ahead = monthsAhead,
          projected_monthly_orders = Math_round projectedOrders,
          projected_monthly_revenue = toFixed 2 projectedRevenue,
          projected_monthly_sessions = Math_round (jdiv projectedOrders (Fin 0.025)),
          growth_from_current =
            toFixed 1 (jmul (jsub (jdiv projectedRevenue avgRevenue) (Fin 1)) (Fin 100))\<rparr>)"

subsection \<open>Confidence band\<close>

record confidence_interval =
  ci_months_ahead :: real
  revenue_low :: string
  revenue_high :: string

definition volatility :: real where
  "volatility = 0.15"

definition confidenceInterval :: "forecast_point \<Rightarrow> confidence_interval" where
  "confidenceInterval f =
     \<lparr>ci_months_ahead = months_ahead f,
      revenue_low =
        toFixed 2 (jmul (parseFloat (projected_monthly_revenue f))
                        (jsub (Fin 1) (jmul (Fin volatility) (Math_sqrt (Fin (months_ahead f)))))),
      revenue_high =
        toFixed 2 (jmul (parseFloat (projected_monthly_revenue f))
                        (jadd (Fin 1) (jmul (Fin volatility) (Math_sqrt (Fin (months_ahead f))))))\<rparr>"

subsection \<open>The forecast report\<close>

record forecast_result =
  avg_monthly_orders :: jsnum
  avg_monthly_revenue :: string
  observed_mom_growth :: string
  applied_growth_rate :: string
  scenario :: growth_scenario
  seasonality_applied :: bool
  forecasts :: "forecast_point list"
  confidence_intervals :: "confidence_interval list"

text \<open>
  The report of \<^verbatim>\<open>shopify_forecast\<close> from the orders of the last 90 days. The date of a
  forecast point is left out of the record, but not the RangeError that
  \<^verbatim>\<open>forecastDate.toISOString()\<close> throws for a time value out of range.
\<close>

definition shopify_forecast ::
  "int \<Rightarrow> order list \<Rightarrow> real list \<Rightarrow> growth_scenario \<Rightarrow> bool \<Rightarrow> error + forecast_result" where
  "shopify_forecast now orders forecast_months growth include_seasonality =
     (if list_all (\<lambda>monthsAhead. validTime (real_of_int now + monthsAhead * 30 * msPerDay))
           forecast_months
      then
        let points = map (forecastPoint now (avgMonthlyOrders orders) (avgMonthlyRevenue orders)
                            (baseGrowthRate orders growth) include_seasonality) forecast_months
        in Inr \<lparr>avg_monthly_orders = Math_round (avgMonthlyOrders orders),
                avg_monthly_revenue = toFixed 2 (avgMonthlyRevenue orders),
                observed_mom_growth = toFixed 1 (jmul (momGrowth orders) (Fin 100)) @ ''%'',
                applied_growth_rate =
                  toFixed 1 (jmul (baseGrowthRate orders growth) (Fin 100)) @ ''%'',
                scenario = growth,
                seasonality_applied = include_seasonality,
                forecasts = points,
                confidence_intervals = map confidenceInterval points\<rparr>
      else Inl RangeError)"

text \<open>The default of \<^verbatim>\<open>forecast_months\<close>.\<close>

definition default_forecast_months :: "real list" where
  "default_forecast_months = [1, 3, 6, 12]"

section \<open>Product Velocity Ranker\<close>

text \<open>
  A line item of the product performance query: \<open>product\<close> is
  \<^verbatim>\<open>item.variant?.product\<close>, \<open>originalTotal\<close> is \<^verbatim>\<open>item.originalTotalSet?.shopMoney?.amount\<close>.
\<close>

record product_ref =
  ref_id :: string
  ref_title :: string
  totalInventory :: "int option"

record line_item =
  item_title :: string
  quantity :: int
  product :: "product_ref option"
  originalTotal :: "string option"

record product_stat =
  title :: string
  units_sold :: int
  revenue :: jsnum
  order_count :: nat
  inventory :: int

text \<open>\<^verbatim>\<open>item.variant?.product?.id || item.title\<close>\<close>

definition productId :: "line_item \<Rightarrow> string" where
  "productId item = orDefault (map_option ref_id (product item)) (item_title item)"

text \<open>\<^verbatim>\<open>item.variant?.product?.title || item.title\<close>\<close>

definition productTitle :: "line_item \<Rightarrow> string" where
  "productTitle item = orDefault (map_option ref_title (product item)) (item_title item)"

text \<open>\<^verbatim>\<open>item.variant?.product?.totalInventory || 0\<close>\<close>

definition itemInventory :: "line_item \<Rightarrow> int" where
  "itemInventory item =
     (case product item of
        None \<Rightarrow> 0
      | Some p \<Rightarrow> (case totalInventory p of None \<Rightarrow> 0 | Some n \<Rightarrow> n))"

definition newStat :: "line_item \<Rightarrow> product_stat" where
  "newStat item =
     \<lparr>title = productTitle item, units_sold = 0, revenue = Fin 0, order_count = 0,
      inventory = itemInventory item\<rparr>"

definition addToStat :: "product_stat \<Rightarrow> line_item \<Rightarrow> product_stat" where
  "addToStat st item =
     st\<lparr>units_sold := units_sold st + quantity item,
        revenue := jadd (revenue st) (parseFloat (orDefault (originalTotal item) ''0'')),
        order_count := order_count st + 1\<rparr>"

text \<open>
  \<^verbatim>\<open>productStats\<close> is a plain object \<^verbatim>\<open>{}\<close>: besides its own entries, a lookup finds the
  members that every object inherits from \<^verbatim>\<open>Object.prototype\<close>, all of them functions or
  objects and so truthy.
\<close>

definition inheritedKeys :: "string list" where
  "inheritedKeys =
     [''constructor'', ''__defineGetter__'', ''__defineSetter__'', ''hasOwnProperty'',
      ''__lookupGetter__'', ''__lookupSetter__'', ''isPrototypeOf'', ''propertyIsEnumerable'',
      ''toString'', ''valueOf'', ''__proto__'', ''toLocaleString'']"

text \<open>The own entries after one round: the entry is updated, or created at the end if missing.\<close>

fun upsertItem ::
  "(string \<times> product_stat) list \<Rightarrow> line_item \<Rightarrow> (string \<times> product_stat) list" where
  "upsertItem [] item = [(productId item, addToStat (newStat item) item)]"
| "upsertItem ((k, st) # m) item =
     (if k = productId item then (k, addToStat st item) # m
      else (k, st) # upsertItem m item)"

text \<open>
  The body of the inner loop. For a key that names an inherited member the test
  \<^verbatim>\<open>!productStats[productId]\<close> is false, no entry is created, and the three updates land
  on the inherited member: the own entries stay as they are.
\<close>

definition addItem ::
  "(string \<times> product_stat) list \<Rightarrow> line_item \<Rightarrow> (string \<times> product_stat) list" where
  "addItem m item = (if productId item \<in> set inheritedKeys then m else upsertItem m item)"

definition productStats :: "line_item list list \<Rightarrow> (string \<times> product_stat) list" where
  "productStats orders = foldl addItem [] (concat orders)"

text \<open>
  \<^verbatim>\<open>Object.entries\<close> lists the keys that are array indices first, in ascending numeric
  order, and then the other keys in the order of their insertion. An array index is a
  canonical numeral below \<open>2^32 - 1\<close>.
\<close>

definition isArrayIndex :: "string \<Rightarrow> bool" where
  "isArrayIndex k =
     (case k of
        [] \<Rightarrow> False
      | c # r \<Rightarrow> list_all isDigit k \<and> (c \<noteq> CHR ''0'' \<or> r = [])
                 \<and> natOfDigits k < 4294967295)"

definition objectEntries :: "(string \<times> 'a) list \<Rightarrow> (string \<times> 'a) list" where
  "objectEntries m =
     sort_key (\<lambda>e. natOfDigits (fst e)) (filter (\<lambda>e. isArrayIndex (fst e)) m)
       @ filter (\<lambda>e. \<not> isArrayIndex (fst e)) m"

text \<open>\<^verbatim>\<open>s.replace(t, "")\<close> for a non-empty \<open>t\<close>: the first occurrence is removed.\<close>

fun removeFirst :: "string \<Rightarrow> string \<Rightarrow> string" where
  "removeFirst [] t = []"
| "removeFirst (c # s) t =
     (if startsWith (c # s) t then drop (length t) (c # s) else c # removeFirst s t)"

record product_row =
  product_id :: string
  stats :: product_stat
  avg_order_quantity :: real
  revenue_per_unit :: jsnum
  velocity :: real

definition productRow :: "string \<times> product_stat \<Rightarrow> product_row" where
  "productRow e =
     \<lparr>product_id = removeFirst (fst e) ''gid://shopify/Product/'',
      stats = snd e,
      avg_order_quantity = real_of_int (units_sold (snd e)) / real (order_count (snd e)),
      revenue_per_unit = jdiv (revenue (snd e)) (Fin (real_of_int (units_sold (snd e)))),
      velocity =
        (if 0 < inventory (snd e)
         then real_of_int (units_sold (snd e)) / real_of_int (inventory (snd e))
         else real_of_int (units_sold (snd e)))\<rparr>"

definition products :: "line_item list list \<Rightarrow> product_row list" where
  "products orders = map productRow (objectEntries (productStats orders))"

text \<open>
  The two filters of the opportunities, each cut by \<^verbatim>\<open>.slice(0, 5)\<close>. The sorted top
  lists and the summary of the report are not part of the model.
\<close>

definition restockCandidate :: "product_row \<Rightarrow> bool" where
  "restockCandidate p =
     (0 < inventory (stats p) \<and> inventory (stats p) < 10 \<and> 0.5 < velocity p)"

definition promotionCandidate :: "product_row \<Rightarrow> bool" where
  "promotionCandidate p = (50 < inventory (stats p) \<and> velocity p < 0.1)"

definition lowInventoryHighVelocity :: "line_item list list \<Rightarrow> product_row list" where
  "lowInventoryHighVelocity orders = take 5 (filter restockCandidate (products orders))"

definition highInventoryLowVelocity :: "line_item list list \<Rightarrow> product_row list" where
  "highInventoryLowVelocity orders = take 5 (filter promotionCandidate (products orders))"

record opportunities =
  restock_soon :: "product_row list"
  consider_promotion :: "product_row list"

definition shopify_product_performance :: "line_item list list \<Rightarrow> opportunities" where
  "shopify_product_performance orders =
     \<lparr>restock_soon = lowInventoryHighVelocity orders,
      consider_promotion = highInventoryLowVelocity orders\<rparr>"

section \<open>Quantities used to state the properties\<close>

text \<open>The amount of an order as a real number, 0 where it is not finite.\<close>

definition amountOrZero :: "order \<Rightarrow> real" where
  "amountOrZero od = (case orderAmount od of Fin a \<Rightarrow> a | _ \<Rightarrow> 0)"

text \<open>The number that the string \<^verbatim>\<open>x.toFixed(d)\<close> denotes.\<close>

definition fixedValue :: "nat \<Rightarrow> real \<Rightarrow> real" where
  "fixedValue d a =
     (if a < 0 then - (real (roundHalfUp (- a * 10 ^ d)) / 10 ^ d)
      else real (roundHalfUp (a * 10 ^ d)) / 10 ^ d)"

text \<open>The seasonal factor of a month as a real number, 1 outside the table.\<close>

definition factorOf :: "nat \<Rightarrow> real" where
  "factorOf m = (case map_of seasonalFactors m of None \<Rightarrow> 1 | Some f \<Rightarrow> f)"



text \<open>
  The product keys that get an entry, in the order of their first occurrence among the
  line items: the order in which the aggregation loop inserts them.
\<close>

definition insertionOrder :: "line_item list list \<Rightarrow> string list" where
  "insertionOrder orders =
     rev (remdups (rev (filter (\<lambda>k. k \<notin> set inheritedKeys) (map productId (concat orders)))))"

text \<open>
  The products of the line items carry the identifiers that Shopify gives them, global
  ids of the form \<^verbatim>\<open>gid://shopify/Product/...\<close>, the prefix that the handler strips from the
  key. A line item without a product (a custom item) is keyed by its title.
\<close>

definition hasShopifyId :: "line_item \<Rightarrow> bool" where
  "hasShopifyId item =
     (case product item of
        None \<Rightarrow> True
      | Some p \<Rightarrow> startsWith (ref_id p) ''gid://shopify/Product/'')"

definition shopifyIds :: "line_item list list \<Rightarrow> bool" where
  "shopifyIds orders = list_all hasShopifyId (concat orders)"

text \<open>
  The amounts that Shopify sends are decimal numerals that are not negative: each
  order amount is a finite number at or above 0 (0 for a missing amount).
\<close>

definition validAmount :: "order \<Rightarrow> bool" where
  "validAmount od = (case orderAmount od of Fin a \<Rightarrow> 0 \<le> a | _ \<Rightarrow> False)"

definition validAmounts :: "order list \<Rightarrow> bool" where
  "validAmounts orders = list_all validAmount orders"

text \<open>The referrer of an order contains a keyword.\<close>

definition hasKeyword :: "order \<Rightarrow> string \<Rightarrow> bool" where
  "hasKeyword od k = stringIncludes (referrerOf od) k"

text \<open>The three host tests of the chain, the only uses of \<open>matchesHost\<close>.\<close>

definition matchesTwitter :: "url_parser \<Rightarrow> order \<Rightarrow> bool" where
  "matchesTwitter hostnameOf od =
     (matchesHost hostnameOf (referrerOf od) ''twitter.com''
      \<or> matchesHost hostnameOf (referrerOf od) ''t.co''
      \<or> matchesHost hostnameOf (referrerOf od) ''x.com'')"

text \<open>A host is a domain or one of its subdomains.\<close>

definition hostWithin :: "string \<Rightarrow> string \<Rightarrow> bool" where
  "hostWithin h d = (h = d \<or> endsWith h (''.'' @ d))"

section \<open>Example inputs\<close>

definition exampleOrder :: "string option \<Rightarrow> order" where
  "exampleOrder a =
     \<lparr>createdAt = 0, amount = a, lineItems = [], customer = None,
      referrerUrl = None, landingPageUrl = None\<rparr>"


definition orderFrom :: "string option \<Rightarrow> string option \<Rightarrow> order" where
  "orderFrom r l = (exampleOrder None)\<lparr>referrerUrl := r, landingPageUrl := l\<rparr>"

definition guestOrder :: order where
  "guestOrder = exampleOrder (Some ''25.00'')"

definition returningOrder :: order where
  "returningOrder =
     (exampleOrder (Some ''40.00''))
       \<lparr>customer := Some \<lparr>customer_id = ''gid://shopify/Customer/1'',
                            ordersCount = JNumber (Fin 3)\<rparr>\<rparr>"

text \<open>A first order of a customer whose count arrives as the string of \<^verbatim>\<open>types.ts\<close>.\<close>

definition firstOrderStringCount :: order where
  "firstOrderStringCount =
     (exampleOrder (Some ''15.00''))
       \<lparr>customer := Some \<lparr>customer_id = ''gid://shopify/Customer/2'',
                            ordersCount = JString ''1''\<rparr>\<rparr>"

definition exampleDomain :: "string option" where
  "exampleDomain = Some ''your-store.myshopify.com''"

text \<open>
  The hostnames that \<^verbatim>\<open>new URL\<close> gives for the referrers of the examples, \<open>None\<close> where it
  throws (a string without a scheme). The host of the last one is percent-encoded and
  comes back decoded. \<open>observedHostname\<close> is the parser on these referrers; it stands for
  no other.
\<close>

definition observedHostnames :: "(string \<times> string option) list" where
  "observedHostnames =
     [(''https://mobile.twitter.com/i/status'', Some ''mobile.twitter.com''),
      (''https://netflix.com/title'', Some ''netflix.com''),
      (''netflix.com/title'', None),
      (''https://randomblog.example.com/google-review'', Some ''randomblog.example.com''),
      (''https://randomblog.example.com'', Some ''randomblog.example.com''),
      (''https://news.example.org/article'', Some ''news.example.org''),
      (''https://bestshoes.myshopify.com/products/1'', Some ''bestshoes.myshopify.com''),
      (''https://www.instagram.com/p/abc'', Some ''www.instagram.com''),
      (''https://%74.co/'', Some ''t.co'')]"

definition observedHostname :: url_parser where
  "observedHostname url = (case map_of observedHostnames url of None \<Rightarrow> None | Some h \<Rightarrow> h)"

text \<open>An order of 100.00 placed on 14 January 2026; \<open>jan15\<close> is 15 January 2026, 00:00 UTC.\<close>

definition janOrder :: order where
  "janOrder = (exampleOrder (Some ''100.00''))\<lparr>createdAt := 1768348800000\<rparr>"

definition jan15 :: int where
  "jan15 = 1768435200000"



text \<open>A line item of product \<open>n\<close> with a quantity and the inventory of the product.\<close>

definition exampleItem :: "string \<Rightarrow> int \<Rightarrow> int \<Rightarrow> line_item" where
  "exampleItem n q stock =
     \<lparr>item_title = ''Item '' @ n, quantity = q,
      product = Some \<lparr>ref_id = ''gid://shopify/Product/'' @ n, ref_title = ''Product '' @ n,
                       totalInventory = Some stock\<rparr>,
      originalTotal = Some ''10.00''\<rparr>"

text \<open>A custom line item: no product, keyed by its title.\<close>

definition customItem :: "string \<Rightarrow> int \<Rightarrow> line_item" where
  "customItem t q =
     \<lparr>item_title = t, quantity = q, product = None, originalTotal = Some ''5.00''\<rparr>"

text \<open>
  Two orders with two products and three custom items; one title is a numeral and one
  names an inherited member.
\<close>

definition mixedItems :: "line_item list list" where
  "mixedItems =
     [[exampleItem ''7'' 4 5, customItem ''Gift wrap'' 1, customItem ''2024'' 2],
      [customItem ''constructor'' 1, exampleItem ''8'' 3 5]]"

text \<open>Two orders over six products, each with 5 in stock and at least 3 sold.\<close>

definition sixProducts :: "line_item list list" where
  "sixProducts =
     [[exampleItem ''1'' 3 5, exampleItem ''2'' 3 5, exampleItem ''3'' 3 5],
      [exampleItem ''4'' 3 5, exampleItem ''5'' 3 5, exampleItem ''6'' 3 5,
       exampleItem ''1'' 1 5]]"

section \<open>Verified properties\<close>

subsection \<open>Record Aggregator: revenue total\<close>

lemmas parse_defs = parseFloat_def scanSigned_def scanUnsigned_def scanExponent_def
  isDigit_def isWhiteSpace_def natOfDigits_def digitVal_def pow10_def orDefault_def

lemma jadd_NaN_left: "jadd NaN x = NaN"
  by (cases x) simp_all

lemma jadd_NaN_right: "jadd x NaN = NaN"
  by (cases x) simp_all

lemma foldl_jadd_NaN: "foldl (\<lambda>sum od. jadd sum (orderAmount od)) NaN orders = NaN"
  by (induction orders) (simp_all add: jadd_NaN_left)

lemma foldl_jadd_finite:
  "\<forall>od\<in>set orders. isFinite (orderAmount od) \<Longrightarrow>
   foldl (\<lambda>sum od. jadd sum (orderAmount od)) (Fin a) orders
     = Fin (a + (\<Sum>od\<leftarrow>orders. amountOrZero od))"
proof (induction orders arbitrary: a)
  case Nil
  then show ?case by simp
next
  case (Cons od orders)
  from Cons.prems obtain b where b: "orderAmount od = Fin b"
    by (cases "orderAmount od") auto
  from Cons.prems have rest: "\<forall>x\<in>set orders. isFinite (orderAmount x)" by simp
  show ?case
    using Cons.IH [OF rest, of "a + b"] b by (simp add: amountOrZero_def add.assoc)
qed

lemma foldl_jadd_has_NaN:
  "\<exists>od\<in>set orders. orderAmount od = NaN \<Longrightarrow>
   foldl (\<lambda>sum od. jadd sum (orderAmount od)) s orders = NaN"
proof (induction orders arbitrary: s)
  case Nil
  then show ?case by simp
next
  case (Cons od orders)
  show ?case
  proof (cases "orderAmount od = NaN")
    case True
    then show ?thesis by (simp add: jadd_NaN_right foldl_jadd_NaN)
  next
    case False
    with Cons.prems have "\<exists>x\<in>set orders. orderAmount x = NaN" by auto
    from Cons.IH [OF this] show ?thesis by simp
  qed
qed

lemma orderAmount_missing:
  "amount od = None \<or> amount od = Some [] \<Longrightarrow> orderAmount od = Fin 0"
  by (auto simp: orderAmount_def parse_defs)

text \<open>
  An amount that is present but not numeric is not replaced by 0: \<^verbatim>\<open>parseFloat("abc")\<close> is
  NaN, and NaN absorbs the whole sum. With the amounts \<^verbatim>\<open>"10.00"\<close> and \<^verbatim>\<open>"abc"\<close> the total
  is NaN, not 10.
\<close>

theorem revenue_total_unparseable_counterexample:
  "totalRevenue [exampleOrder (Some ''10.00''), exampleOrder (Some ''abc'')] = NaN
   \<and> \<not> isFinite (totalRevenue [exampleOrder (Some ''10.00''), exampleOrder (Some ''abc'')])
   \<and> orderAmount (exampleOrder (Some ''abc'')) \<noteq> Fin 0"
  by (simp add: totalRevenue_def orderAmount_def exampleOrder_def parse_defs)

text \<open>
  Claim C4, as the code has it. A missing amount (an absent link of the optional chain, or
  the empty string) contributes exactly 0. When every amount that is present parses to a
  finite number, \<open>totalRevenue\<close> is the finite sum of the parsed amounts. An amount that
  does not parse makes the total NaN. \<open>totalRevenue\<close> is a total function: no input
  raises.
\<close>

theorem revenue_total_sum:
  "((amount od = None \<or> amount od = Some []) \<longrightarrow> orderAmount od = Fin 0)
   \<and> ((\<forall>x\<in>set orders. isFinite (orderAmount x)) \<longrightarrow>
        totalRevenue orders = Fin (\<Sum>x\<leftarrow>orders. amountOrZero x))
   \<and> ((\<exists>x\<in>set orders. orderAmount x = NaN) \<longrightarrow> totalRevenue orders = NaN)"
  using orderAmount_missing [of od] foldl_jadd_finite [of orders 0]
    foldl_jadd_has_NaN [of orders "Fin 0"]
  by (auto simp: totalRevenue_def)

theorem revenue_total_sum_witness:
  "amount (exampleOrder None) = None
   \<and> orderAmount (exampleOrder None) = Fin 0
   \<and> isFinite (orderAmount (exampleOrder None))
   \<and> isFinite (orderAmount (exampleOrder (Some ''19.99'')))
   \<and> totalRevenue [exampleOrder None, exampleOrder (Some ''19.99'')] = Fin 19.99
   \<and> orderAmount (exampleOrder (Some ''n/a'')) = NaN
   \<and> totalRevenue [exampleOrder (Some ''n/a'')] = NaN"
proof -
  have fin: "isFinite (orderAmount (exampleOrder None))"
    "isFinite (orderAmount (exampleOrder (Some ''19.99'')))"
    by (simp_all add: orderAmount_def exampleOrder_def parse_defs)
  have nan: "orderAmount (exampleOrder (Some ''n/a'')) = NaN"
    by (simp add: orderAmount_def exampleOrder_def parse_defs)
  have v: "amountOrZero (exampleOrder None) = 0"
    "amountOrZero (exampleOrder (Some ''19.99'')) = 19.99"
    by (simp_all add: amountOrZero_def orderAmount_def exampleOrder_def parse_defs)
  from revenue_total_sum [of "exampleOrder None" "[exampleOrder None, exampleOrder (Some ''19.99'')]"]
    revenue_total_sum [of "exampleOrder None" "[exampleOrder (Some ''n/a'')]"] fin nan v
  show ?thesis by (simp add: exampleOrder_def)
qed

lemmas fixed_defs = fixedDigits_def roundHalfUp_def showNat.simps digitChar_def

subsection \<open>Record Aggregator: customer buckets\<close>

lemma new_plus_returning_is_total:
  "newCustomerOrders orders + returningCustomers orders = totalOrders orders"
  by (simp add: newCustomerOrders_def returningCustomers_def totalOrders_def)

lemma conversion_buckets_need_customer:
  "conversion_newCustomerOrders orders + returningCustomerOrders orders
     \<le> length (filter (\<lambda>od. customer od \<noteq> None) orders)"
proof (induction orders)
  case Nil
  then show ?case
    by (simp add: conversion_newCustomerOrders_def returningCustomerOrders_def)
next
  case (Cons od orders)
  have "\<not> (ordersCountIs1 od \<and> ordersCountAbove1 od)"
    by (auto simp: ordersCountIs1_def ordersCountAbove1_def split: option.splits jsval.splits)
  moreover have "ordersCountIs1 od \<or> ordersCountAbove1 od \<Longrightarrow> customer od \<noteq> None"
    by (auto simp: ordersCountIs1_def ordersCountAbove1_def split: option.splits)
  ultimately show ?case
    using Cons.IH
    by (auto simp: conversion_newCustomerOrders_def returningCustomerOrders_def)
qed

text \<open>
  The strict comparison \<^verbatim>\<open>ordersCount === 1\<close> of conversion analysis holds for the number 1
  only: a count that arrives as the string \<^verbatim>\<open>"1"\<close> is in neither bucket.
\<close>

lemma conversion_new_bucket_string_count:
  "conversion_newCustomerOrders [firstOrderStringCount] = 0
   \<and> returningCustomerOrders [firstOrderStringCount] = 0"
  by (simp add: conversion_newCustomerOrders_def returningCustomerOrders_def ordersCountIs1_def
      ordersCountAbove1_def firstOrderStringCount_def exampleOrder_def stringToNumber_def
      scanSigned_def scanUnsigned_def scanExponent_def isDigit_def isWhiteSpace_def
      natOfDigits_def digitVal_def pow10_def)

text \<open>
  Claim C8 at an order list with a guest order: one order without a customer and one
  order of a customer with three orders. Both count in the order count and in the revenue,
  and only the second one in the unique customers. Store analytics counts every order
  that is not returning as a new-customer order, so the guest order is in its new bucket
  (new + returning = 2, with one order carrying a customer); conversion analysis
  leaves the guest order out of both buckets.
\<close>

theorem customer_buckets_guest_order:
  "totalOrders [guestOrder, returningOrder] = 2
   \<and> totalRevenue [guestOrder, returningOrder] = Fin 65
   \<and> uniqueCustomers [guestOrder, returningOrder] = 1
   \<and> length (filter (\<lambda>od. customer od \<noteq> None) [guestOrder, returningOrder]) = 1
   \<and> returningCustomers [guestOrder, returningOrder] = 1
   \<and> newCustomerOrders [guestOrder, returningOrder] = 1
   \<and> conversion_newCustomerOrders [guestOrder, returningOrder] = 0
   \<and> returningCustomerOrders [guestOrder, returningOrder] = 1"
  by (simp add: totalOrders_def totalRevenue_def orderAmount_def uniqueCustomers_def
      List.map_filter_def customerIdOf_def returningCustomers_def newCustomerOrders_def
      conversion_newCustomerOrders_def returningCustomerOrders_def ordersCountAbove1_def
      ordersCountIs1_def guestOrder_def returningOrder_def exampleOrder_def parse_defs)

subsection \<open>Traffic Attributor\<close>

lemmas lower_defs = toLowerCase_def toLowerChar_def isUpper_def upperLetters_def lowerLetters_def

lemmas example_order_defs = referrerOf_def orderFrom_def exampleOrder_def orDefault_def

lemma lower_targets:
  "toLowerCase ''twitter.com'' = ''twitter.com''" "toLowerCase ''t.co'' = ''t.co''"
  "toLowerCase ''x.com'' = ''x.com''"
  by (simp_all add: lower_defs)

lemma matchesHost_empty:
  "\<not> matchesHost hostnameOf [] ''twitter.com''" "\<not> matchesHost hostnameOf [] ''t.co''"
  "\<not> matchesHost hostnameOf [] ''x.com''"
  by (simp_all add: matchesHost_def getReferrerHost_def lower_targets Let_def toLowerCase_def)

lemma matchesHost_with_host:
  "getReferrerHost hostnameOf r = Some h \<Longrightarrow> h \<noteq> [] \<Longrightarrow>
   matchesHost hostnameOf r t \<longleftrightarrow> hostWithin (toLowerCase h) (toLowerCase t)"
  by (simp add: matchesHost_def hostWithin_def Let_def)

lemma matchesHost_without_host:
  "getReferrerHost hostnameOf r = None \<or> getReferrerHost hostnameOf r = Some [] \<Longrightarrow>
   matchesHost hostnameOf r t \<longleftrightarrow> stringIncludes (toLowerCase r) (toLowerCase t)"
  by (auto simp: matchesHost_def Let_def)

lemma observed_hosts:
  "getReferrerHost observedHostname ''https://mobile.twitter.com/i/status''
     = Some ''mobile.twitter.com''"
  "getReferrerHost observedHostname ''https://netflix.com/title'' = Some ''netflix.com''"
  "getReferrerHost observedHostname ''netflix.com/title'' = None"
  "getReferrerHost observedHostname ''https://randomblog.example.com/google-review''
     = Some ''randomblog.example.com''"
  "getReferrerHost observedHostname ''https://randomblog.example.com''
     = Some ''randomblog.example.com''"
  "getReferrerHost observedHostname ''https://news.example.org/article''
     = Some ''news.example.org''"
  "getReferrerHost observedHostname ''https://bestshoes.myshopify.com/products/1''
     = Some ''bestshoes.myshopify.com''"
  "getReferrerHost observedHostname ''https://www.instagram.com/p/abc''
     = Some ''www.instagram.com''"
  "getReferrerHost observedHostname ''https://%74.co/'' = Some ''t.co''"
  by (simp_all add: getReferrerHost_def observedHostname_def observedHostnames_def lower_defs)

text \<open>
  A referrer that parses, whose host is no Google domain, is attributed to google
  because the word occurs in its path: the google test is a substring test on the whole
  referrer, and the parser is not consulted.
\<close>

theorem traffic_keyword_counterexample:
  "observedHostname ''https://randomblog.example.com/google-review''
     = Some ''randomblog.example.com''
   \<and> \<not> stringIncludes ''randomblog.example.com'' ''google''
   \<and> trafficSource observedHostname exampleDomain
        (orderFrom (Some ''https://randomblog.example.com/google-review'') None) = ''google''"
  by (simp add: trafficSource_def example_order_defs Let_def observedHostname_def
      observedHostnames_def)

text \<open>
  Claim C2, as the code has it. The helper \<open>matchesHost\<close> compares the host of a referrer
  that parses (equality with the target, or a subdomain of it) and falls back to
  case-insensitive containment only when the referrer gives no host. The chain uses it
  for \<^verbatim>\<open>twitter.com\<close>, \<^verbatim>\<open>t.co\<close> and \<^verbatim>\<open>x.com\<close> only: a referrer that parses to a host outside
  these three domains is never attributed to twitter. Every other platform is tested by
  case-sensitive containment of its keywords in the referrer string, and the tests run
  in a fixed order: google, facebook, instagram, twitter, tiktok, email, pinterest. The
  source is a platform exactly when its test passes and no earlier test does.
\<close>

theorem traffic_host_match_twitter_only:
  "(getReferrerHost hostnameOf r = Some h \<and> h \<noteq> [] \<longrightarrow>
      (matchesHost hostnameOf r t \<longleftrightarrow> hostWithin (toLowerCase h) (toLowerCase t)))
   \<and> (getReferrerHost hostnameOf r = None \<or> getReferrerHost hostnameOf r = Some [] \<longrightarrow>
        (matchesHost hostnameOf r t \<longleftrightarrow> stringIncludes (toLowerCase r) (toLowerCase t)))
   \<and> (getReferrerHost hostnameOf (referrerOf od) = Some h \<and> h \<noteq> []
        \<and> \<not> hostWithin (toLowerCase h) ''twitter.com''
        \<and> \<not> hostWithin (toLowerCase h) ''t.co''
        \<and> \<not> hostWithin (toLowerCase h) ''x.com''
        \<longrightarrow> trafficSource hostnameOf shopDomain od \<noteq> ''twitter'')
   \<and> (trafficSource hostnameOf shopDomain od = ''google'' \<longleftrightarrow> hasKeyword od ''google'')
   \<and> (trafficSource hostnameOf shopDomain od = ''facebook'' \<longleftrightarrow>
        \<not> hasKeyword od ''google''
        \<and> (hasKeyword od ''facebook'' \<or> hasKeyword od ''fb.''))
   \<and> (trafficSource hostnameOf shopDomain od = ''instagram'' \<longleftrightarrow>
        \<not> hasKeyword od ''google'' \<and> \<not> hasKeyword od ''facebook'' \<and> \<not> hasKeyword od ''fb.''
        \<and> hasKeyword od ''instagram'')
   \<and> (trafficSource hostnameOf shopDomain od = ''twitter'' \<longleftrightarrow>
        \<not> hasKeyword od ''google'' \<and> \<not> hasKeyword od ''facebook'' \<and> \<not> hasKeyword od ''fb.''
        \<and> \<not> hasKeyword od ''instagram'' \<and> matchesTwitter hostnameOf od)
   \<and> (trafficSource hostnameOf shopDomain od = ''tiktok'' \<longleftrightarrow>
        \<not> hasKeyword od ''google'' \<and> \<not> hasKeyword od ''facebook'' \<and> \<not> hasKeyword od ''fb.''
        \<and> \<not> hasKeyword od ''instagram'' \<and> \<not> matchesTwitter hostnameOf od
        \<and> hasKeyword od ''tiktok'')
   \<and> (trafficSource hostnameOf shopDomain od = ''email'' \<longleftrightarrow>
        \<not> hasKeyword od ''google'' \<and> \<not> hasKeyword od ''facebook'' \<and> \<not> hasKeyword od ''fb.''
        \<and> \<not> hasKeyword od ''instagram'' \<and> \<not> matchesTwitter hostnameOf od
        \<and> \<not> hasKeyword od ''tiktok''
        \<and> (hasKeyword od ''email'' \<or> hasKeyword od ''klaviyo'' \<or> hasKeyword od ''mailchimp''))
   \<and> (trafficSource hostnameOf shopDomain od = ''pinterest'' \<longleftrightarrow>
        \<not> hasKeyword od ''google'' \<and> \<not> hasKeyword od ''facebook'' \<and> \<not> hasKeyword od ''fb.''
        \<and> \<not> hasKeyword od ''instagram'' \<and> \<not> matchesTwitter hostnameOf od
        \<and> \<not> hasKeyword od ''tiktok'' \<and> \<not> hasKeyword od ''email''
        \<and> \<not> hasKeyword od ''klaviyo'' \<and> \<not> hasKeyword od ''mailchimp''
        \<and> hasKeyword od ''pinterest'')"
proof -
  have a: "getReferrerHost hostnameOf r = Some h \<and> h \<noteq> [] \<longrightarrow>
      (matchesHost hostnameOf r t \<longleftrightarrow> hostWithin (toLowerCase h) (toLowerCase t))"
    using matchesHost_with_host by blast
  have b: "getReferrerHost hostnameOf r = None \<or> getReferrerHost hostnameOf r = Some [] \<longrightarrow>
        (matchesHost hostnameOf r t \<longleftrightarrow> stringIncludes (toLowerCase r) (toLowerCase t))"
    using matchesHost_without_host by blast
  have c: "getReferrerHost hostnameOf (referrerOf od) = Some h \<and> h \<noteq> []
        \<and> \<not> hostWithin (toLowerCase h) ''twitter.com''
        \<and> \<not> hostWithin (toLowerCase h) ''t.co''
        \<and> \<not> hostWithin (toLowerCase h) ''x.com''
        \<longrightarrow> trafficSource hostnameOf shopDomain od \<noteq> ''twitter''"
  proof
    assume h: "getReferrerHost hostnameOf (referrerOf od) = Some h \<and> h \<noteq> []
        \<and> \<not> hostWithin (toLowerCase h) ''twitter.com''
        \<and> \<not> hostWithin (toLowerCase h) ''t.co''
        \<and> \<not> hostWithin (toLowerCase h) ''x.com''"
    then have "\<not> matchesHost hostnameOf (referrerOf od) ''twitter.com''"
      "\<not> matchesHost hostnameOf (referrerOf od) ''t.co''"
      "\<not> matchesHost hostnameOf (referrerOf od) ''x.com''"
      using matchesHost_with_host [of hostnameOf "referrerOf od" h]
      by (simp_all add: lower_targets)
    then show "trafficSource hostnameOf shopDomain od \<noteq> ''twitter''"
      by (simp add: trafficSource_def Let_def)
  qed
  have d: "trafficSource hostnameOf shopDomain od = ''google'' \<longleftrightarrow> hasKeyword od ''google''"
    "trafficSource hostnameOf shopDomain od = ''facebook'' \<longleftrightarrow>
        \<not> hasKeyword od ''google''
        \<and> (hasKeyword od ''facebook'' \<or> hasKeyword od ''fb.'')"
    "trafficSource hostnameOf shopDomain od = ''instagram'' \<longleftrightarrow>
        \<not> hasKeyword od ''google'' \<and> \<not> hasKeyword od ''facebook'' \<and> \<not> hasKeyword od ''fb.''
        \<and> hasKeyword od ''instagram''"
    "trafficSource hostnameOf shopDomain od = ''twitter'' \<longleftrightarrow>
        \<not> hasKeyword od ''google'' \<and> \<not> hasKeyword od ''facebook'' \<and> \<not> hasKeyword od ''fb.''
        \<and> \<not> hasKeyword od ''instagram'' \<and> matchesTwitter hostnameOf od"
    by (auto simp: trafficSource_def hasKeyword_def matchesTwitter_def Let_def)
  have e: "trafficSource hostnameOf shopDomain od = ''tiktok'' \<longleftrightarrow>
        \<not> hasKeyword od ''google'' \<and> \<not> hasKeyword od ''facebook'' \<and> \<not> hasKeyword od ''fb.''
        \<and> \<not> hasKeyword od ''instagram'' \<and> \<not> matchesTwitter hostnameOf od
        \<and> hasKeyword od ''tiktok''"
    "trafficSource hostnameOf shopDomain od = ''email'' \<longleftrightarrow>
        \<not> hasKeyword od ''google'' \<and> \<not> hasKeyword od ''facebook'' \<and> \<not> hasKeyword od ''fb.''
        \<and> \<not> hasKeyword od ''instagram'' \<and> \<not> matchesTwitter hostnameOf od
        \<and> \<not> hasKeyword od ''tiktok''
        \<and> (hasKeyword od ''email'' \<or> hasKeyword od ''klaviyo'' \<or> hasKeyword od ''mailchimp'')"
    "trafficSource hostnameOf shopDomain od = ''pinterest'' \<longleftrightarrow>
        \<not> hasKeyword od ''google'' \<and> \<not> hasKeyword od ''facebook'' \<and> \<not> hasKeyword od ''fb.''
        \<and> \<not> hasKeyword od ''instagram'' \<and> \<not> matchesTwitter hostnameOf od
        \<and> \<not> hasKeyword od ''tiktok'' \<and> \<not> hasKeyword od ''email''
        \<and> \<not> hasKeyword od ''klaviyo'' \<and> \<not> hasKeyword od ''mailchimp''
        \<and> hasKeyword od ''pinterest''"
    by (auto simp: trafficSource_def hasKeyword_def matchesTwitter_def Let_def)
  from a b c d e show ?thesis by blast
qed

theorem traffic_host_match_twitter_only_witness:
  "getReferrerHost observedHostname ''https://mobile.twitter.com/i/status''
     = Some ''mobile.twitter.com''
   \<and> matchesHost observedHostname ''https://mobile.twitter.com/i/status'' ''twitter.com''
   \<and> getReferrerHost observedHostname ''netflix.com/title'' = None
   \<and> matchesHost observedHostname ''netflix.com/title'' ''x.com''
   \<and> getReferrerHost observedHostname
        (referrerOf (orderFrom (Some ''https://netflix.com/title'') None)) = Some ''netflix.com''
   \<and> trafficSource observedHostname exampleDomain
        (orderFrom (Some ''https://netflix.com/title'') None) \<noteq> ''twitter''
   \<and> hasKeyword (orderFrom None (Some ''https://www.instagram.com/p/abc'')) ''instagram''
   \<and> trafficSource observedHostname exampleDomain
        (orderFrom None (Some ''https://www.instagram.com/p/abc'')) = ''instagram''
   \<and> matchesTwitter observedHostname (orderFrom (Some ''https://%74.co/'') None)
   \<and> trafficSource observedHostname exampleDomain (orderFrom (Some ''https://%74.co/'') None)
        = ''twitter''"
proof -
  have r: "referrerOf (orderFrom (Some ''https://netflix.com/title'') None)
             = ''https://netflix.com/title''"
    "referrerOf (orderFrom None (Some ''https://www.instagram.com/p/abc''))
             = ''https://www.instagram.com/p/abc''"
    "referrerOf (orderFrom (Some ''https://%74.co/'') None) = ''https://%74.co/''"
    by (simp_all add: example_order_defs)
  have l: "toLowerCase ''mobile.twitter.com'' = ''mobile.twitter.com''"
    "toLowerCase ''netflix.com'' = ''netflix.com''"
    "toLowerCase ''netflix.com/title'' = ''netflix.com/title''"
    "toLowerCase ''t.co'' = ''t.co''"
    by (simp_all add: lower_defs)
  have w: "hostWithin ''mobile.twitter.com'' ''twitter.com''"
    "\<not> hostWithin ''netflix.com'' ''twitter.com''" "\<not> hostWithin ''netflix.com'' ''t.co''"
    "\<not> hostWithin ''netflix.com'' ''x.com''" "hostWithin ''t.co'' ''t.co''"
    by (simp_all add: hostWithin_def endsWith_def)
  have k: "hasKeyword (orderFrom None (Some ''https://www.instagram.com/p/abc'')) ''instagram''"
    "\<not> hasKeyword (orderFrom None (Some ''https://www.instagram.com/p/abc'')) ''google''"
    "\<not> hasKeyword (orderFrom None (Some ''https://www.instagram.com/p/abc'')) ''facebook''"
    "\<not> hasKeyword (orderFrom None (Some ''https://www.instagram.com/p/abc'')) ''fb.''"
    "\<not> hasKeyword (orderFrom (Some ''https://%74.co/'') None) ''google''"
    "\<not> hasKeyword (orderFrom (Some ''https://%74.co/'') None) ''facebook''"
    "\<not> hasKeyword (orderFrom (Some ''https://%74.co/'') None) ''fb.''"
    "\<not> hasKeyword (orderFrom (Some ''https://%74.co/'') None) ''instagram''"
    by (simp_all add: hasKeyword_def r)
  have t: "matchesTwitter observedHostname (orderFrom (Some ''https://%74.co/'') None)"
    using matchesHost_with_host [OF observed_hosts(9), of "''t.co''"] w(5)
    by (simp add: matchesTwitter_def r l)
  from traffic_host_match_twitter_only
        [where hostnameOf = observedHostname and r = "''https://mobile.twitter.com/i/status''"
           and h = "''mobile.twitter.com''" and t = "''twitter.com''"
           and od = "orderFrom None (Some ''https://www.instagram.com/p/abc'')"
           and shopDomain = exampleDomain]
      traffic_host_match_twitter_only
        [where hostnameOf = observedHostname and r = "''netflix.com/title''"
           and h = "''netflix.com''" and t = "''x.com''"
           and od = "orderFrom (Some ''https://netflix.com/title'') None"
           and shopDomain = exampleDomain]
      traffic_host_match_twitter_only
        [where hostnameOf = observedHostname and od = "orderFrom (Some ''https://%74.co/'') None"
           and shopDomain = exampleDomain]
      observed_hosts r l w k t lower_targets
  show ?thesis
    by simp
qed

subsection \<open>Direct and referral\<close>

lemma blog_no_keyword:
  "\<not> stringIncludes ''https://randomblog.example.com'' ''google''"
  "\<not> stringIncludes ''https://randomblog.example.com'' ''facebook''"
  "\<not> stringIncludes ''https://randomblog.example.com'' ''fb.''"
  "\<not> stringIncludes ''https://randomblog.example.com'' ''instagram''"
  "\<not> stringIncludes ''https://randomblog.example.com'' ''tiktok''"
  "\<not> stringIncludes ''https://randomblog.example.com'' ''email''"
  "\<not> stringIncludes ''https://randomblog.example.com'' ''klaviyo''"
  "\<not> stringIncludes ''https://randomblog.example.com'' ''mailchimp''"
  "\<not> stringIncludes ''https://randomblog.example.com'' ''pinterest''"
  by simp_all

lemma blog_no_platform:
  assumes "hostnameOf ''https://randomblog.example.com'' = Some ''randomblog.example.com''"
  shows "\<not> matchesPlatform hostnameOf ''https://randomblog.example.com''"
proof -
  have h: "getReferrerHost hostnameOf ''https://randomblog.example.com''
             = Some ''randomblog.example.com''"
    using assms by (simp add: getReferrerHost_def lower_defs)
  have "\<not> matchesHost hostnameOf ''https://randomblog.example.com'' ''twitter.com''"
    "\<not> matchesHost hostnameOf ''https://randomblog.example.com'' ''t.co''"
    "\<not> matchesHost hostnameOf ''https://randomblog.example.com'' ''x.com''"
    using matchesHost_with_host [OF h]
    by (simp_all add: hostWithin_def endsWith_def lower_defs)
  then show ?thesis
    using blog_no_keyword by (simp add: matchesPlatform_def)
qed

text \<open>
  The test of the last branch is containment of the shop domain in the referrer string,
  not a comparison of hosts. A referrer on another host that merely contains the string
  is classified as direct. With the shop domain \<^verbatim>\<open>blog.example.com\<close> the blog referrer of the
  claim is direct, although its host \<^verbatim>\<open>randomblog.example.com\<close> is neither that domain nor a
  subdomain of it; with the shop domain \<^verbatim>\<open>shoes.myshopify.com\<close> so is a referrer from the
  store \<^verbatim>\<open>bestshoes.myshopify.com\<close>.
\<close>

theorem traffic_own_domain_counterexample:
  "observedHostname ''https://randomblog.example.com'' = Some ''randomblog.example.com''
   \<and> \<not> hostWithin ''randomblog.example.com'' ''blog.example.com''
   \<and> \<not> matchesPlatform observedHostname ''https://randomblog.example.com''
   \<and> trafficSource observedHostname (Some ''blog.example.com'')
        (orderFrom (Some ''https://randomblog.example.com'') None) = ''direct''
   \<and> observedHostname ''https://bestshoes.myshopify.com/products/1''
        = Some ''bestshoes.myshopify.com''
   \<and> \<not> hostWithin ''bestshoes.myshopify.com'' ''shoes.myshopify.com''
   \<and> \<not> matchesPlatform observedHostname ''https://bestshoes.myshopify.com/products/1''
   \<and> trafficSource observedHostname (Some ''shoes.myshopify.com'')
        (orderFrom (Some ''https://bestshoes.myshopify.com/products/1'') None) = ''direct''"
proof -
  have o: "observedHostname ''https://randomblog.example.com'' = Some ''randomblog.example.com''"
    "observedHostname ''https://bestshoes.myshopify.com/products/1''
        = Some ''bestshoes.myshopify.com''"
    by (simp_all add: observedHostname_def observedHostnames_def)
  have w: "\<not> hostWithin ''randomblog.example.com'' ''blog.example.com''"
    "\<not> hostWithin ''bestshoes.myshopify.com'' ''shoes.myshopify.com''"
    by (simp_all add: hostWithin_def endsWith_def)
  have m1: "\<not> matchesPlatform observedHostname ''https://randomblog.example.com''"
    using o(1) by (rule blog_no_platform)
  have "\<not> matchesHost observedHostname ''https://bestshoes.myshopify.com/products/1'' ''twitter.com''"
    "\<not> matchesHost observedHostname ''https://bestshoes.myshopify.com/products/1'' ''t.co''"
    "\<not> matchesHost observedHostname ''https://bestshoes.myshopify.com/products/1'' ''x.com''"
    using matchesHost_with_host [OF observed_hosts(7)]
    by (simp_all add: hostWithin_def endsWith_def lower_defs)
  then have m2: "\<not> matchesPlatform observedHostname ''https://bestshoes.myshopify.com/products/1''"
    by (simp add: matchesPlatform_def)
  have s1: "trafficSource observedHostname (Some ''blog.example.com'')
        (orderFrom (Some ''https://randomblog.example.com'') None) = ''direct''"
    using m1 by (simp add: trafficSource_def matchesPlatform_def example_order_defs Let_def)
  have s2: "trafficSource observedHostname (Some ''shoes.myshopify.com'')
        (orderFrom (Some ''https://bestshoes.myshopify.com/products/1'') None) = ''direct''"
    using m2 by (simp add: trafficSource_def matchesPlatform_def example_order_defs Let_def)
  from o w m1 m2 s1 s2 show ?thesis by simp
qed

text \<open>
  Claim C3, as the code has it. With an empty referrer (after the fall back to the
  landing page) the source is direct. With a non-empty referrer that meets none of the
  platform conditions, the source is referral when the referrer string does not contain
  the shop domain, and direct when it does. The three examples: the mobile Facebook URL
  is facebook, the empty referrer is direct, and the blog URL is referral for every shop
  domain that does not occur in it.
\<close>

theorem traffic_direct_and_referral:
  "(referrerOf od = [] \<longrightarrow> trafficSource hostnameOf shopDomain od = ''direct'')
   \<and> (referrerOf od \<noteq> [] \<and> \<not> matchesPlatform hostnameOf (referrerOf od)
        \<and> \<not> stringIncludes (referrerOf od) (orDefault shopDomain [])
        \<longrightarrow> trafficSource hostnameOf shopDomain od = ''referral'')
   \<and> (\<not> matchesPlatform hostnameOf (referrerOf od)
        \<and> stringIncludes (referrerOf od) (orDefault shopDomain [])
        \<longrightarrow> trafficSource hostnameOf shopDomain od = ''direct'')
   \<and> trafficSource hostnameOf shopDomain (orderFrom (Some ''https://m.facebook.com/ad'') None)
        = ''facebook''
   \<and> trafficSource hostnameOf shopDomain (orderFrom (Some []) None) = ''direct''
   \<and> trafficSource hostnameOf shopDomain (orderFrom None None) = ''direct''
   \<and> (hostnameOf ''https://randomblog.example.com'' = Some ''randomblog.example.com''
        \<and> \<not> stringIncludes ''https://randomblog.example.com'' (orDefault shopDomain [])
        \<longrightarrow> trafficSource hostnameOf shopDomain
              (orderFrom (Some ''https://randomblog.example.com'') None) = ''referral'')"
proof -
  have a: "referrerOf od = [] \<longrightarrow> trafficSource hostnameOf shopDomain od = ''direct''"
    using matchesHost_empty by (simp add: trafficSource_def Let_def)
  have b: "referrerOf od \<noteq> [] \<and> \<not> matchesPlatform hostnameOf (referrerOf od)
        \<and> \<not> stringIncludes (referrerOf od) (orDefault shopDomain [])
        \<longrightarrow> trafficSource hostnameOf shopDomain od = ''referral''"
    by (simp add: trafficSource_def matchesPlatform_def Let_def)
  have b': "\<not> matchesPlatform hostnameOf (referrerOf od)
        \<and> stringIncludes (referrerOf od) (orDefault shopDomain [])
        \<longrightarrow> trafficSource hostnameOf shopDomain od = ''direct''"
    by (simp add: trafficSource_def matchesPlatform_def Let_def)
  have c: "trafficSource hostnameOf shopDomain (orderFrom (Some ''https://m.facebook.com/ad'') None)
             = ''facebook''"
    by (simp add: trafficSource_def example_order_defs Let_def)
  have e: "referrerOf (orderFrom (Some []) None) = []" "referrerOf (orderFrom None None) = []"
    by (simp_all add: example_order_defs)
  have d: "trafficSource hostnameOf shopDomain (orderFrom (Some []) None) = ''direct''"
    "trafficSource hostnameOf shopDomain (orderFrom None None) = ''direct''"
    using matchesHost_empty e by (simp_all add: trafficSource_def Let_def)
  have r: "referrerOf (orderFrom (Some ''https://randomblog.example.com'') None)
             = ''https://randomblog.example.com''"
    by (simp add: example_order_defs)
  have f: "hostnameOf ''https://randomblog.example.com'' = Some ''randomblog.example.com''
        \<and> \<not> stringIncludes ''https://randomblog.example.com'' (orDefault shopDomain [])
        \<longrightarrow> trafficSource hostnameOf shopDomain
              (orderFrom (Some ''https://randomblog.example.com'') None) = ''referral''"
    using blog_no_platform [of hostnameOf] r
    by (simp add: trafficSource_def matchesPlatform_def Let_def)
  from a b b' c d f show ?thesis by blast
qed

theorem traffic_direct_and_referral_witness:
  "referrerOf (orderFrom None None) = []
   \<and> trafficSource observedHostname exampleDomain (orderFrom None None) = ''direct''
   \<and> referrerOf (orderFrom None (Some ''https://news.example.org/article'')) \<noteq> []
   \<and> \<not> matchesPlatform observedHostname
          (referrerOf (orderFrom None (Some ''https://news.example.org/article'')))
   \<and> \<not> stringIncludes (referrerOf (orderFrom None (Some ''https://news.example.org/article'')))
          (orDefault exampleDomain [])
   \<and> trafficSource observedHostname exampleDomain
        (orderFrom None (Some ''https://news.example.org/article'')) = ''referral''
   \<and> stringIncludes (referrerOf (orderFrom None (Some ''https://news.example.org/article'')))
        (orDefault (Some ''news.example.org'') [])
   \<and> trafficSource observedHostname (Some ''news.example.org'')
        (orderFrom None (Some ''https://news.example.org/article'')) = ''direct''
   \<and> observedHostname ''https://randomblog.example.com'' = Some ''randomblog.example.com''
   \<and> \<not> stringIncludes ''https://randomblog.example.com'' (orDefault exampleDomain [])
   \<and> trafficSource observedHostname exampleDomain
        (orderFrom (Some ''https://randomblog.example.com'') None) = ''referral''"
proof -
  let ?news = "orderFrom None (Some ''https://news.example.org/article'')"
  have r: "referrerOf ?news = ''https://news.example.org/article''"
    by (simp add: example_order_defs)
  have e: "referrerOf (orderFrom None None) = []"
    by (simp add: example_order_defs)
  have n: "referrerOf ?news \<noteq> []"
    by (simp add: r)
  have o: "observedHostname ''https://randomblog.example.com'' = Some ''randomblog.example.com''"
    by (simp add: observedHostname_def observedHostnames_def)
  have "\<not> matchesHost observedHostname ''https://news.example.org/article'' ''twitter.com''"
    "\<not> matchesHost observedHostname ''https://news.example.org/article'' ''t.co''"
    "\<not> matchesHost observedHostname ''https://news.example.org/article'' ''x.com''"
    using matchesHost_with_host [OF observed_hosts(6)]
    by (simp_all add: hostWithin_def endsWith_def lower_defs)
  then have m: "\<not> matchesPlatform observedHostname (referrerOf ?news)"
    by (simp add: matchesPlatform_def r)
  have s1: "\<not> stringIncludes (referrerOf ?news) (orDefault exampleDomain [])"
    by (simp add: r exampleDomain_def orDefault_def)
  have s2: "\<not> stringIncludes ''https://randomblog.example.com'' (orDefault exampleDomain [])"
    by (simp add: exampleDomain_def orDefault_def)
  have s3: "stringIncludes (referrerOf ?news) (orDefault (Some ''news.example.org'') [])"
    by (simp add: r orDefault_def)
  from traffic_direct_and_referral [of "orderFrom None None" observedHostname exampleDomain] e
  have d1: "trafficSource observedHostname exampleDomain (orderFrom None None) = ''direct''"
    by blast
  from traffic_direct_and_referral [of ?news observedHostname exampleDomain] n m s1 o s2
  have d2: "trafficSource observedHostname exampleDomain ?news = ''referral''"
    and d4: "trafficSource observedHostname exampleDomain
        (orderFrom (Some ''https://randomblog.example.com'') None) = ''referral''"
    by blast+
  from traffic_direct_and_referral [of ?news observedHostname "Some ''news.example.org''"] m s3
  have d3: "trafficSource observedHostname (Some ''news.example.org'') ?news = ''direct''"
    by blast
  from e d1 n m s1 d2 s3 d3 o s2 d4 show ?thesis by blast
qed

subsection \<open>Reading back a number written by toFixed\<close>

lemma digits_are_digits: "c \<in> set ''0123456789'' \<Longrightarrow> isDigit c"
  by (auto simp: isDigit_def)

lemma digitChar_isDigit: "isDigit (digitChar n)"
proof -
  have "digitChar n \<in> set ''0123456789''"
    unfolding digitChar_def by (rule nth_mem) simp
  then show ?thesis by (rule digits_are_digits)
qed

lemma digitVal_digitChar: "n < 10 \<Longrightarrow> digitVal (digitChar n) = n"
proof -
  assume "n < 10"
  then have "n \<in> {0, 1, 2, 3, 4, 5, 6, 7, 8, 9}" by auto
  then show ?thesis by (auto simp: digitChar_def digitVal_def)
qed

lemma showNat_digits: "list_all isDigit (showNat n)"
proof (induction n rule: showNat.induct)
  case (1 n)
  show ?case
  proof (cases "n < 10")
    case True
    then show ?thesis by (subst showNat.simps) (simp add: digitChar_isDigit)
  next
    case False
    then show ?thesis
      using "1.IH" by (subst showNat.simps) (simp add: digitChar_isDigit)
  qed
qed

lemma showNat_nonempty: "showNat n \<noteq> []"
  by (subst showNat.simps) simp

lemma natOfDigits_snoc: "natOfDigits (ds @ [c]) = 10 * natOfDigits ds + digitVal c"
  by (simp add: natOfDigits_def)

lemma natOfDigits_showNat: "natOfDigits (showNat n) = n"
proof (induction n rule: showNat.induct)
  case (1 n)
  show ?case
  proof (cases "n < 10")
    case True
    then show ?thesis
      by (subst showNat.simps) (simp add: natOfDigits_def digitVal_digitChar)
  next
    case False
    then have "natOfDigits (showNat n) = 10 * (n div 10) + n mod 10"
      using "1.IH" by (subst showNat.simps) (simp add: natOfDigits_snoc digitVal_digitChar)
    then show ?thesis by simp
  qed
qed

lemma foldl_zeros: "foldl (\<lambda>n c. 10 * n + digitVal c) 0 (replicate k (CHR ''0'')) = 0"
  by (induction k) (simp_all add: digitVal_def)

lemma natOfDigits_zeros: "natOfDigits (replicate k (CHR ''0'') @ ds) = natOfDigits ds"
  by (simp add: natOfDigits_def foldl_zeros)

lemma isDigit_zero: "isDigit (CHR ''0'')"
  by (simp add: isDigit_def)

lemma not_digit_point: "\<not> isDigit (CHR ''.'')"
  by (simp add: isDigit_def)

lemma digit_first_facts:
  "isDigit c \<Longrightarrow> c \<noteq> CHR ''-'' \<and> c \<noteq> CHR ''+'' \<and> c \<noteq> CHR ''I'' \<and> \<not> isWhiteSpace c"
  by (auto simp: isDigit_def isWhiteSpace_def)

text \<open>A digit string with a point inside is read back as its number.\<close>

lemma scanUnsigned_fixed:
  assumes ip: "list_all isDigit ip" "ip \<noteq> []" and fp: "list_all isDigit fp"
  shows "scanUnsigned (ip @ CHR ''.'' # fp)
           = (Fin (real (natOfDigits (ip @ fp)) / 10 ^ length fp), [])"
proof -
  obtain c r where c: "ip = c # r" using ip(2) by (cases ip) auto
  with ip(1) have "isDigit c" by simp
  then have nI: "\<not> startsWith (ip @ CHR ''.'' # fp) ''Infinity''"
    using digit_first_facts [of c] c by simp
  have all: "\<forall>x\<in>set ip. isDigit x" "\<forall>x\<in>set fp. isDigit x"
    using ip(1) fp by (simp_all add: list_all_iff)
  have tw: "takeWhile isDigit (ip @ CHR ''.'' # fp) = ip"
    using all(1) by (simp add: takeWhile_append2 not_digit_point)
  have dw: "dropWhile isDigit (ip @ CHR ''.'' # fp) = CHR ''.'' # fp"
    using all(1) by (simp add: dropWhile_append2 not_digit_point)
  have twf: "takeWhile isDigit fp = fp" using all(2) by simp
  have dwf: "dropWhile isDigit fp = []" using all(2) by simp
  have e: "scanExponent [] = (0, [])" by (simp add: scanExponent_def)
  show ?thesis
    unfolding scanUnsigned_def Let_def
    using nI ip(2) by (simp add: tw dw twf dwf e pow10_def)
qed

lemma fixedDigits_shape:
  assumes "0 < d"
  shows "\<exists>ip fp. fixedDigits d n = ip @ ''.'' @ fp \<and> list_all isDigit ip \<and> ip \<noteq> []
           \<and> list_all isDigit fp \<and> length fp = d \<and> natOfDigits (ip @ fp) = n"
proof -
  let ?m = "replicate (d + 1 - length (showNat n)) (CHR ''0'') @ showNat n"
  let ?k = "length ?m - d"
  have len: "d + 1 \<le> length ?m" by simp
  have dig: "list_all isDigit ?m"
    using showNat_digits [of n] by (auto simp: list_all_iff isDigit_zero)
  have val: "natOfDigits ?m = n"
    by (simp only: natOfDigits_zeros natOfDigits_showNat)
  have f: "fixedDigits d n = take ?k ?m @ ''.'' @ drop ?k ?m"
    using assms unfolding fixedDigits_def Let_def by simp
  have 1: "list_all isDigit (take ?k ?m)" "list_all isDigit (drop ?k ?m)"
    using dig by (auto simp: list_all_iff dest: in_set_takeD in_set_dropD)
  have 2: "take ?k ?m \<noteq> []" using len assms by auto
  have 3: "length (drop ?k ?m) = d" using len by auto
  have 4: "natOfDigits (take ?k ?m @ drop ?k ?m) = n"
    by (simp only: append_take_drop_id val)
  from f 1 2 3 4 show ?thesis by blast
qed

lemma parseFloat_fixedDigits:
  assumes "0 < d"
  shows "parseFloat (fixedDigits d n) = Fin (real n / 10 ^ d)"
    and "parseFloat (''-'' @ fixedDigits d n) = Fin (- (real n / 10 ^ d))"
proof -
  from fixedDigits_shape [OF assms, of n] obtain ip fp where
    f: "fixedDigits d n = ip @ ''.'' @ fp" and ip: "list_all isDigit ip" "ip \<noteq> []"
    and fp: "list_all isDigit fp" "length fp = d" and v: "natOfDigits (ip @ fp) = n"
    by blast
  obtain c r where c: "ip = c # r" using ip(2) by (cases ip) auto
  with ip(1) have dc: "isDigit c" by simp
  have s: "scanUnsigned (ip @ CHR ''.'' # fp) = (Fin (real n / 10 ^ d), [])"
    using scanUnsigned_fixed [OF ip fp(1)] v fp(2) by simp
  show "parseFloat (fixedDigits d n) = Fin (real n / 10 ^ d)"
    using digit_first_facts [OF dc] s
    by (simp add: parseFloat_def scanSigned_def f c)
  have m: "\<not> isWhiteSpace (CHR ''-'')" by (simp add: isWhiteSpace_def)
  show "parseFloat (''-'' @ fixedDigits d n) = Fin (- (real n / 10 ^ d))"
    using s m by (simp add: parseFloat_def scanSigned_def f)
qed

lemma parseFloat_toFixed:
  "0 < d \<Longrightarrow> parseFloat (toFixed d (Fin a)) = Fin (fixedValue d a)"
  using parseFloat_fixedDigits [of d] by (simp add: fixedValue_def)

text \<open>What \<^verbatim>\<open>toFixed\<close> writes for a finite number is a numeral with \<open>d\<close> decimals, with or without a sign.\<close>

lemma toFixed_shape:
  "(\<exists>n. toFixed d (Fin a) = fixedDigits d n) \<or> (\<exists>n. toFixed d (Fin a) = ''-'' @ fixedDigits d n)"
  by (cases "a < 0") auto

text \<open>The number that \<^verbatim>\<open>toFixed\<close> writes is within half a unit of the last decimal.\<close>

lemma round_close: "\<bar>real_of_int \<lfloor>y + 1 / 2\<rfloor> - y\<bar> \<le> 1 / 2" for y :: real
proof -
  have "real_of_int \<lfloor>y + 1 / 2\<rfloor> \<le> y + 1 / 2" by (rule of_int_floor_le)
  moreover have "y + 1 / 2 < real_of_int \<lfloor>y + 1 / 2\<rfloor> + 1" by linarith
  ultimately show ?thesis by linarith
qed

lemma roundHalfUp_close:
  assumes "0 \<le> y"
  shows "\<bar>real (roundHalfUp y) - y\<bar> \<le> 1 / 2"
proof -
  have "0 \<le> \<lfloor>y + 1 / 2\<rfloor>" using assms by simp
  then have "real (roundHalfUp y) = real_of_int \<lfloor>y + 1 / 2\<rfloor>"
    by (simp add: roundHalfUp_def)
  then show ?thesis using round_close [of y] by simp
qed

lemma scaled_close:
  fixes r x k :: real
  assumes "\<bar>r - x * k\<bar> \<le> 1 / 2" and "0 < k"
  shows "\<bar>r / k - x\<bar> \<le> 1 / 2 / k"
proof -
  have "(r - x * k) / k = r / k - x * k / k" by (rule diff_divide_distrib)
  also have "x * k / k = x" using assms(2) by simp
  finally have "r / k - x = (r - x * k) / k" by simp
  then have "\<bar>r / k - x\<bar> = \<bar>r - x * k\<bar> / k" using assms(2) by (simp only: abs_divide)
  also have "\<dots> \<le> 1 / 2 / k"
    by (rule divide_right_mono [OF assms(1) less_imp_le [OF assms(2)]])
  finally show ?thesis .
qed

lemma fixedValue_close: "\<bar>fixedValue d x - x\<bar> \<le> 1 / 2 / 10 ^ d"
proof (cases "x < 0")
  case True
  then have "0 \<le> (- x) * 10 ^ d" by (intro mult_nonneg_nonneg) simp_all
  then have "0 \<le> - x * 10 ^ d" by simp
  from roundHalfUp_close [OF this]
  have "\<bar>real (roundHalfUp (- x * 10 ^ d)) - (- x) * 10 ^ d\<bar> \<le> 1 / 2" by simp
  then have "\<bar>real (roundHalfUp (- x * 10 ^ d)) / 10 ^ d - (- x)\<bar> \<le> 1 / 2 / 10 ^ d"
    by (rule scaled_close) simp
  then show ?thesis using True by (simp add: fixedValue_def abs_le_iff)
next
  case False
  then have "0 \<le> x * 10 ^ d" by simp
  from roundHalfUp_close [OF this]
  have "\<bar>real (roundHalfUp (x * 10 ^ d)) / 10 ^ d - x\<bar> \<le> 1 / 2 / 10 ^ d"
    by (rule scaled_close) simp
  then show ?thesis using False by (simp add: fixedValue_def)
qed

subsection \<open>Period Comparator\<close>

lemma digitChar_not_slash: "digitChar n \<noteq> CHR ''/''"
proof -
  have "digitChar n \<in> set ''0123456789''"
    unfolding digitChar_def by (rule nth_mem) simp
  then show ?thesis by auto
qed

lemma slash_not_in_showNat: "CHR ''/'' \<notin> set (showNat n)"
proof (induction n rule: showNat.induct)
  case (1 n)
  show ?case
  proof (cases "n < 10")
    case True
    then show ?thesis
      using digitChar_not_slash [of n] by (subst showNat.simps) simp
  next
    case False
    then show ?thesis
      using "1.IH" digitChar_not_slash [of "n mod 10"] by (subst showNat.simps) simp
  qed
qed

lemma slash_not_in_point:
  "c \<notin> set m \<Longrightarrow> c \<noteq> CHR ''.'' \<Longrightarrow> c \<notin> set (take k m @ ''.'' @ drop k m)"
  by (auto dest: in_set_takeD in_set_dropD)

lemma slash_not_in_fixedDigits: "CHR ''/'' \<notin> set (fixedDigits d n)"
proof -
  let ?m = "replicate (d + 1 - length (showNat n)) (CHR ''0'') @ showNat n"
  have m: "CHR ''/'' \<notin> set ?m"
    using slash_not_in_showNat [of n] by auto
  show ?thesis
    using m slash_not_in_point [OF m, of "length ?m - d"]
    unfolding fixedDigits_def Let_def by (cases "d = 0") simp_all
qed

lemma toFixed_no_slash: "CHR ''/'' \<notin> set (toFixed d x)"
proof (cases x)
  case (Fin a)
  then show ?thesis
    using slash_not_in_fixedDigits [of d "roundHalfUp (- a * 10 ^ d)"]
      slash_not_in_fixedDigits [of d "roundHalfUp (a * 10 ^ d)"]
    by auto
qed simp_all

lemma toFixed_not_NA: "toFixed d x \<noteq> ''N/A''"
proof
  assume "toFixed d x = ''N/A''"
  then have "CHR ''/'' \<in> set (toFixed d x)" by simp
  then show False using toFixed_no_slash by blast
qed

text \<open>The total of amounts that are finite and not negative is finite and not negative.\<close>

lemma validAmounts_total:
  assumes "validAmounts orders"
  shows "\<exists>p. totalRevenue orders = Fin p \<and> 0 \<le> p"
proof -
  have v: "validAmount od" if "od \<in> set orders" for od
    using assms that by (simp add: validAmounts_def list_all_iff)
  have f: "\<forall>od\<in>set orders. isFinite (orderAmount od)"
  proof
    fix od assume "od \<in> set orders"
    from v [OF this] show "isFinite (orderAmount od)"
      by (cases "orderAmount od") (simp_all add: validAmount_def)
  qed
  have n: "\<forall>od\<in>set orders. 0 \<le> amountOrZero od"
  proof
    fix od assume "od \<in> set orders"
    from v [OF this] show "0 \<le> amountOrZero od"
      by (cases "orderAmount od") (simp_all add: validAmount_def amountOrZero_def)
  qed
  have "totalRevenue orders = Fin (\<Sum>od\<leftarrow>orders. amountOrZero od)"
    using foldl_jadd_finite [OF f, of 0] by (simp add: totalRevenue_def)
  moreover have "0 \<le> (\<Sum>od\<leftarrow>orders. amountOrZero od)"
    using n by (intro sum_list_nonneg) auto
  ultimately show ?thesis by blast
qed

text \<open>
  The guard of the comparison is \<^verbatim>\<open>prevRevenue > 0\<close>. On a previous revenue that is finite
  and not negative it fails exactly at 0.
\<close>

lemma revenue_change_guard:
  assumes "totalRevenue prevOrders = Fin p" and "0 \<le> p"
  shows "revenue_change (compare_periods orders prevOrders) = ''N/A'' \<longleftrightarrow> p = 0"
  using assms toFixed_not_NA by (auto simp: compare_periods_def Let_def)

lemma revenue_change_value:
  assumes "totalRevenue orders = Fin c" and "totalRevenue prevOrders = Fin p" and "0 < p"
  shows "revenue_change (compare_periods orders prevOrders)
           = toFixed 1 (Fin ((c - p) / p * 100))"
  using assms by (simp add: compare_periods_def Let_def jsub_def)

text \<open>
  Without that condition the guard differs from a test against 0: a previous revenue
  of -5, which no shop reports, also gives \<^verbatim>\<open>"N/A"\<close>.
\<close>

lemma revenue_change_negative_total:
  "revenue_change (compare_periods [exampleOrder (Some ''10.00'')] [exampleOrder (Some ''-5.00'')])
     = ''N/A''
   \<and> totalRevenue [exampleOrder (Some ''-5.00'')] = Fin (- 5)"
  by (simp add: compare_periods_def totalRevenue_def orderAmount_def exampleOrder_def
      parse_defs Let_def)

text \<open>
  Claim C6. The amounts of the orders are finite and not negative, so the previous
  revenue \<open>p\<close> and the current revenue \<open>c\<close> are finite and \<open>p\<close> is at or above 0. The revenue
  change is the string \<^verbatim>\<open>"N/A"\<close> exactly when \<open>p\<close> is 0. Otherwise it is a numeral with
  one decimal that denotes \<open>(c - p) / p * 100\<close> rounded to that decimal: a finite number,
  within 0.05 of it. For the revenues 150 and 100 it is the string \<^verbatim>\<open>"50.0"\<close>.
\<close>

theorem revenue_change_sentinel:
  "(validAmounts orders \<and> validAmounts prevOrders \<longrightarrow>
      (\<exists>c p. totalRevenue orders = Fin c \<and> totalRevenue prevOrders = Fin p
         \<and> (revenue_change (compare_periods orders prevOrders) = ''N/A'' \<longleftrightarrow> p = 0)
         \<and> (p \<noteq> 0 \<longrightarrow>
              ((\<exists>n. revenue_change (compare_periods orders prevOrders) = fixedDigits 1 n)
               \<or> (\<exists>n. revenue_change (compare_periods orders prevOrders)
                          = ''-'' @ fixedDigits 1 n))
              \<and> (\<exists>v. parseFloat (revenue_change (compare_periods orders prevOrders)) = Fin v
                    \<and> \<bar>v - (c - p) / p * 100\<bar> \<le> 1 / 20))))
   \<and> revenue_change
        (compare_periods [exampleOrder (Some ''150.00'')] [exampleOrder (Some ''100.00'')])
        = ''50.0''"
proof (intro conjI impI)
  assume v: "validAmounts orders \<and> validAmounts prevOrders"
  from v validAmounts_total [of orders] obtain c where c: "totalRevenue orders = Fin c"
    by blast
  from v validAmounts_total [of prevOrders] obtain p
    where p: "totalRevenue prevOrders = Fin p" "0 \<le> p"
    by blast
  have g: "revenue_change (compare_periods orders prevOrders) = ''N/A'' \<longleftrightarrow> p = 0"
    using p by (rule revenue_change_guard)
  have f: "((\<exists>n. revenue_change (compare_periods orders prevOrders) = fixedDigits 1 n)
               \<or> (\<exists>n. revenue_change (compare_periods orders prevOrders)
                          = ''-'' @ fixedDigits 1 n))
              \<and> (\<exists>v. parseFloat (revenue_change (compare_periods orders prevOrders)) = Fin v
                    \<and> \<bar>v - (c - p) / p * 100\<bar> \<le> 1 / 20)" if "p \<noteq> 0"
  proof -
    from that p(2) have "0 < p" by simp
    note e = revenue_change_value [OF c p(1) this]
    have "parseFloat (revenue_change (compare_periods orders prevOrders))
            = Fin (fixedValue 1 ((c - p) / p * 100))"
      by (simp only: e parseFloat_toFixed [of 1] zero_less_one)
    moreover have "\<bar>fixedValue 1 ((c - p) / p * 100) - (c - p) / p * 100\<bar> \<le> 1 / 20"
      using fixedValue_close [of 1 "(c - p) / p * 100"] by simp
    moreover have "(\<exists>n. revenue_change (compare_periods orders prevOrders) = fixedDigits 1 n)
               \<or> (\<exists>n. revenue_change (compare_periods orders prevOrders)
                          = ''-'' @ fixedDigits 1 n)"
      unfolding e by (rule toFixed_shape)
    ultimately show ?thesis by blast
  qed
  from c p(1) g f
  show "\<exists>c p. totalRevenue orders = Fin c \<and> totalRevenue prevOrders = Fin p
         \<and> (revenue_change (compare_periods orders prevOrders) = ''N/A'' \<longleftrightarrow> p = 0)
         \<and> (p \<noteq> 0 \<longrightarrow>
              ((\<exists>n. revenue_change (compare_periods orders prevOrders) = fixedDigits 1 n)
               \<or> (\<exists>n. revenue_change (compare_periods orders prevOrders)
                          = ''-'' @ fixedDigits 1 n))
              \<and> (\<exists>v. parseFloat (revenue_change (compare_periods orders prevOrders)) = Fin v
                    \<and> \<bar>v - (c - p) / p * 100\<bar> \<le> 1 / 20))"
    by blast
next
  have t: "totalRevenue [exampleOrder (Some ''150.00'')] = Fin 150"
    "totalRevenue [exampleOrder (Some ''100.00'')] = Fin 100"
    by (simp_all add: totalRevenue_def orderAmount_def exampleOrder_def parse_defs)
  show "revenue_change
        (compare_periods [exampleOrder (Some ''150.00'')] [exampleOrder (Some ''100.00'')])
        = ''50.0''"
    by (simp add: compare_periods_def Let_def t jsub_def fixed_defs)
qed

theorem revenue_change_sentinel_witness:
  "validAmounts [exampleOrder (Some ''150.00'')] \<and> validAmounts []
   \<and> totalRevenue [] = Fin 0
   \<and> revenue_change (compare_periods [exampleOrder (Some ''150.00'')] []) = ''N/A''
   \<and> validAmounts [exampleOrder (Some ''120.00'')] \<and> validAmounts [exampleOrder (Some ''80.00'')]
   \<and> totalRevenue [exampleOrder (Some ''120.00'')] = Fin 120
   \<and> totalRevenue [exampleOrder (Some ''80.00'')] = Fin 80
   \<and> revenue_change
        (compare_periods [exampleOrder (Some ''120.00'')] [exampleOrder (Some ''80.00'')])
        = ''50.0''
   \<and> (\<exists>v. parseFloat (revenue_change
              (compare_periods [exampleOrder (Some ''120.00'')] [exampleOrder (Some ''80.00'')]))
            = Fin v
          \<and> \<bar>v - (120 - 80) / 80 * 100\<bar> \<le> 1 / 20)"
proof -
  have a: "validAmounts [exampleOrder (Some ''150.00'')]" "validAmounts []"
    "validAmounts [exampleOrder (Some ''120.00'')]" "validAmounts [exampleOrder (Some ''80.00'')]"
    by (simp_all add: validAmounts_def validAmount_def orderAmount_def exampleOrder_def parse_defs)
  have t: "totalRevenue [] = Fin 0"
    "totalRevenue [exampleOrder (Some ''120.00'')] = Fin 120"
    "totalRevenue [exampleOrder (Some ''80.00'')] = Fin 80"
    by (simp_all add: totalRevenue_def orderAmount_def exampleOrder_def parse_defs)
  have s: "revenue_change
        (compare_periods [exampleOrder (Some ''120.00'')] [exampleOrder (Some ''80.00'')])
        = ''50.0''"
    by (simp add: compare_periods_def Let_def t jsub_def fixed_defs)
  from revenue_change_sentinel [of "[exampleOrder (Some ''150.00'')]" "[]"] a t
  have n: "revenue_change (compare_periods [exampleOrder (Some ''150.00'')] []) = ''N/A''"
    by auto
  from revenue_change_sentinel
         [of "[exampleOrder (Some ''120.00'')]" "[exampleOrder (Some ''80.00'')]"] a t
  have e: "\<exists>v. parseFloat (revenue_change
              (compare_periods [exampleOrder (Some ''120.00'')] [exampleOrder (Some ''80.00'')]))
            = Fin v
          \<and> \<bar>v - (120 - 80) / 80 * 100\<bar> \<le> 1 / 20"
    by auto
  from a t s n e show ?thesis by blast
qed

subsection \<open>Period length\<close>

text \<open>
  A period of 0 days and a period of -7 days are not rejected: the report is computed in
  both cases. With one order of 25.00 and 0 days the daily averages are the strings
  \<^verbatim>\<open>"Infinity"\<close>; with no order they are \<^verbatim>\<open>"NaN"\<close>; with -7 days they are negative.
\<close>

theorem store_analytics_zero_period_counterexample:
  "(case shopify_store_analytics observedHostname exampleDomain 1700000000000 0 [guestOrder] None 0 of
      Inl e \<Rightarrow> False
    | Inr r \<Rightarrow> orders_daily_average r = ''Infinity'' \<and> revenue_daily_average r = ''Infinity''
              \<and> estimated_daily_sessions r = PInf)
   \<and> (case shopify_store_analytics observedHostname exampleDomain 1700000000000 0 [] None 0 of
      Inl e \<Rightarrow> False
    | Inr r \<Rightarrow> orders_daily_average r = ''NaN'' \<and> revenue_daily_average r = ''NaN'')
   \<and> (case shopify_store_analytics observedHostname exampleDomain 1700000000000 (- 7) [guestOrder] None 0 of
      Inl e \<Rightarrow> False
    | Inr r \<Rightarrow> orders_daily_average r = ''-0.1'' \<and> revenue_daily_average r = ''-3.57''
              \<and> estimated_daily_sessions r = Fin (- 6))"
proof -
  have t: "totalRevenue [guestOrder] = Fin 25" "totalRevenue [] = Fin 0"
    by (simp_all add: totalRevenue_def orderAmount_def guestOrder_def exampleOrder_def parse_defs)
  show ?thesis
    by (simp add: shopify_store_analytics_def validTime_def msPerDay_def Let_def t
        totalOrders_def ofNat_def fixed_defs)
qed

text \<open>
  Claim C9, as the code has it. The schema takes any number for \<^verbatim>\<open>period_days\<close> and the
  handler has no check of its own: zero and negative periods are accepted like any
  other. Whenever the dates of the period are in the range of a Date, the report is
  computed, and its daily averages are the totals divided by \<^verbatim>\<open>period_days\<close>. The only
  rejection is the RangeError of a date out of range.
\<close>

theorem store_analytics_accepts_any_period:
  "validTime now \<and> validTime (now - days * msPerDay)
   \<and> (previousOrders = None \<or> validTime (now - days * msPerDay - days * msPerDay)) \<longrightarrow>
     (case shopify_store_analytics hostnameOf shopDomain now days orders previousOrders
             newCustomers of
        Inl e \<Rightarrow> False
      | Inr r \<Rightarrow>
          period_days r = days
          \<and> orders_daily_average r = toFixed 1 (jdiv (ofNat (totalOrders orders)) (Fin days))
          \<and> revenue_daily_average r = toFixed 2 (jdiv (totalRevenue orders) (Fin days)))"
  by (simp add: shopify_store_analytics_def Let_def del: toFixed.simps)

theorem store_analytics_accepts_any_period_witness:
  "validTime 1700000000000 \<and> validTime (1700000000000 - (- 7) * msPerDay)
   \<and> (case shopify_store_analytics observedHostname exampleDomain 1700000000000 (- 7) [guestOrder] None 0 of
        Inl e \<Rightarrow> False
      | Inr r \<Rightarrow>
          period_days r = - 7
          \<and> orders_daily_average r = ''-0.1''
          \<and> revenue_daily_average r = ''-3.57'')"
proof -
  have v: "validTime 1700000000000" "validTime (1700000000000 - (- 7) * msPerDay)"
    by (simp_all add: validTime_def msPerDay_def)
  have t: "totalRevenue [guestOrder] = Fin 25"
    by (simp add: totalRevenue_def orderAmount_def guestOrder_def exampleOrder_def parse_defs)
  have a: "toFixed 1 (jdiv (ofNat (totalOrders [guestOrder])) (Fin (- 7))) = ''-0.1''"
    "toFixed 2 (jdiv (totalRevenue [guestOrder]) (Fin (- 7))) = ''-3.57''"
    by (simp_all add: t totalOrders_def ofNat_def fixed_defs)
  from store_analytics_accepts_any_period
         [where now = 1700000000000 and days = "- 7" and previousOrders = None
            and hostnameOf = observedHostname and shopDomain = exampleDomain
            and orders = "[guestOrder]" and newCustomers = 0]
       v a
  show ?thesis
    by (auto split: sum.splits)
qed

subsection \<open>Growth Forecaster: the projection loop\<close>

lemmas date_defs = futureMonth_def getMonth_def dayOfYear_def yearOfEra_def dayOfEra_def
  getFullYear_def Let_def

lemma getMonth_below_12: "getMonth ms < 12"
  by (simp add: getMonth_def nat_less_iff)

lemma factor_in_table: "m < 12 \<Longrightarrow> seasonalFactor (Suc m) = Fin (factorOf (Suc m))"
proof -
  assume "m < 12"
  then have "m = 0 \<or> m = 1 \<or> m = 2 \<or> m = 3 \<or> m = 4 \<or> m = 5 \<or> m = 6 \<or> m = 7
      \<or> m = 8 \<or> m = 9 \<or> m = 10 \<or> m = 11" by arith
  then show ?thesis
    by (elim disjE) (simp_all add: seasonalFactor_def factorOf_def seasonalFactors_def)
qed

lemma seasonalFactor_futureMonth:
  "seasonalFactor (futureMonth now i) = Fin (factorOf (futureMonth now i))"
  using factor_in_table [OF getMonth_below_12] by (simp add: futureMonth_def)

lemma projectStep_seasonal:
  "projectStep now (Fin r) True (Fin v) i = Fin (v * (1 + r) * factorOf (futureMonth now i))"
  by (simp add: projectStep_def seasonalFactor_futureMonth)

lemma projectStep_plain:
  "projectStep now (Fin r) False (Fin v) i = Fin (v * (1 + r))"
  by (simp add: projectStep_def)

lemma upt_from_1_Suc: "[1 ..< Suc (Suc n)] = [1 ..< Suc n] @ [Suc n]"
  by simp

lemma foldl_seasonal:
  "foldl (projectStep now (Fin r) True) (Fin b) [1 ..< Suc n]
     = Fin (b * (1 + r) ^ n * (\<Prod>i\<leftarrow>[1 ..< Suc n]. factorOf (futureMonth now i)))"
proof (induction n)
  case 0
  then show ?case by simp
next
  case (Suc n)
  show ?case
    by (simp only: upt_from_1_Suc foldl_append Suc.IH foldl.simps projectStep_seasonal
        map_append prod_list.append) (simp add: mult_ac)
qed

lemma foldl_plain:
  "foldl (projectStep now (Fin r) False) (Fin b) [1 ..< Suc n] = Fin (b * (1 + r) ^ n)"
proof (induction n)
  case 0
  then show ?case by simp
next
  case (Suc n)
  show ?case
    by (simp only: upt_from_1_Suc foldl_append Suc.IH foldl.simps projectStep_plain)
       (simp add: mult_ac)
qed

lemma projectLoop_seasonal:
  "projectLoop now (Fin r) True (real h) (Fin b)
     = Fin (b * (1 + r) ^ h * (\<Prod>i\<leftarrow>[1 ..< Suc h]. factorOf (futureMonth now i)))"
  unfolding projectLoop_def by (simp only: floor_of_nat nat_int foldl_seasonal)

lemma projectLoop_plain:
  "projectLoop now (Fin r) False (real h) (Fin b) = Fin (b * (1 + r) ^ h)"
  unfolding projectLoop_def by (simp only: floor_of_nat nat_int foldl_plain)

text \<open>
  Claim C1, as the code has it. The seasonal factor is applied inside the loop, once per
  step: with a finite baseline and a finite growth rate, the projected revenue (and the
  projected orders before rounding) for a horizon of \<open>h\<close> months is the baseline times
  \<open>(1 + rate)^h\<close> times the product of the seasonal factors of the months of all the
  steps \<open>1, ..., h\<close>, each step 30 days after the one before. With seasonality off it
  is the baseline times \<open>(1 + rate)^h\<close>.
\<close>

theorem forecast_seasonal_compounding:
  "projected_monthly_revenue (forecastPoint now (Fin a) (Fin b) (Fin r) True (real h))
     = toFixed 2 (Fin (b * (1 + r) ^ h * (\<Prod>i\<leftarrow>[1 ..< Suc h]. factorOf (futureMonth now i))))
   \<and> projected_monthly_orders (forecastPoint now (Fin a) (Fin b) (Fin r) True (real h))
     = Math_round (Fin (a * (1 + r) ^ h * (\<Prod>i\<leftarrow>[1 ..< Suc h]. factorOf (futureMonth now i))))
   \<and> projected_monthly_revenue (forecastPoint now (Fin a) (Fin b) (Fin r) False (real h))
     = toFixed 2 (Fin (b * (1 + r) ^ h))
   \<and> projected_monthly_orders (forecastPoint now (Fin a) (Fin b) (Fin r) False (real h))
     = Math_round (Fin (a * (1 + r) ^ h))"
  by (simp add: forecastPoint_def Let_def projectLoop_seasonal projectLoop_plain
      del: Math_round.simps toFixed.simps)


lemma futureMonth_jan15:
  "futureMonth jan15 (Suc 0) = 2" "futureMonth jan15 2 = 3"
  by (simp_all add: jan15_def date_defs)

lemma monthlyData_janOrder:
  "monthlyData [janOrder] = [((2026, 1), \<lparr>m_orders = 1, m_revenue = Fin 100\<rparr>)]"
proof -
  have k: "monthKey janOrder = (2026, 1)"
    by (simp add: monthKey_def janOrder_def exampleOrder_def date_defs)
  have a: "orderAmount janOrder = Fin 100"
    by (simp add: orderAmount_def janOrder_def exampleOrder_def parse_defs)
  show ?thesis by (simp add: monthlyData_def k a)
qed

lemma baseline_janOrder:
  "avgMonthlyRevenue [janOrder] = Fin 100" "avgMonthlyOrders [janOrder] = Fin 1"
  "baseGrowthRate [janOrder] Moderate = Fin 0.05"
  by (simp_all add: avgMonthlyRevenue_def avgMonthlyOrders_def baseGrowthRate_def momGrowth_def
      sortedMonths_def monthlyData_janOrder ofNat_def)

lemma upt_1_3: "[1 ..< Suc 2] = [1, 2]"
  by code_simp

lemma projectLoop_jan15:
  "projectLoop jan15 (Fin 0.05) True 2 (Fin 100) = Fin 94.26375"
proof -
  have n: "nat \<lfloor>2::real\<rfloor> = 2" by simp
  show ?thesis
    unfolding projectLoop_def n upt_1_3
    by (simp add: projectStep_def futureMonth_jan15 seasonalFactor_def seasonalFactors_def)
qed

text \<open>
  On 15 January 2026, with one order of 100.00 and the moderate scenario, the horizon of
  two months passes February (0.90) and ends in March (0.95). The code projects
  \<open>100 * 1.05 * 0.90 * 1.05 * 0.95 = 94.26375\<close>; the target month alone would give
  \<open>100 * 1.05^2 * 0.95 = 104.7375\<close>.
\<close>

theorem forecast_target_month_counterexample:
  "avgMonthlyRevenue [janOrder] = Fin 100
   \<and> baseGrowthRate [janOrder] Moderate = Fin 0.05
   \<and> futureMonth jan15 2 = 3
   \<and> projectLoop jan15 (baseGrowthRate [janOrder] Moderate) True 2 (avgMonthlyRevenue [janOrder])
        = Fin 94.26375
   \<and> 100 * (1 + 0.05) ^ 2 * factorOf 3 = (104.7375 :: real)
   \<and> (case shopify_forecast jan15 [janOrder] [2] Moderate True of
         Inl e \<Rightarrow> False
       | Inr r \<Rightarrow> map projected_monthly_revenue (forecasts r) = [''94.26''])"
proof -
  have f: "100 * (1 + 0.05) ^ 2 * factorOf 3 = (104.7375 :: real)"
    by (simp add: factorOf_def seasonalFactors_def power2_eq_square)
  have v: "validTime (real_of_int jan15 + 2 * 30 * msPerDay)"
    by (simp add: validTime_def jan15_def msPerDay_def)
  have t: "toFixed 2 (Fin 94.26375) = ''94.26''"
    by (simp add: fixed_defs)
  have p: "projected_monthly_revenue
             (forecastPoint jan15 (Fin 1) (Fin 100) (Fin 0.05) True 2) = ''94.26''"
    using projectLoop_jan15 t by (simp add: forecastPoint_def Let_def del: toFixed.simps(1))
  show ?thesis
    using f v p projectLoop_jan15 futureMonth_jan15
    by (simp add: baseline_janOrder shopify_forecast_def Let_def)
qed

subsection \<open>Growth Forecaster: no orders\<close>

lemma projectLoop_zero: "projectLoop now (Fin r) seas (real h) (Fin 0) = Fin 0"
  by (cases seas) (simp_all add: projectLoop_seasonal projectLoop_plain)

lemma toFixed_2_zero: "toFixed 2 (Fin 0) = ''0.00''"
  by (simp add: fixed_defs)

lemma parseFloat_zero: "parseFloat ''0.00'' = Fin 0"
  by (simp add: parse_defs)

lemma forecastPoint_zero:
  "forecastPoint now (Fin 0) (Fin 0) (Fin r) seas (real h)
     = \<lparr>months_ahead = real h, projected_monthly_orders = Fin 0,
        projected_monthly_revenue = ''0.00'', projected_monthly_sessions = Fin 0,
        growth_from_current = ''NaN''\<rparr>"
  using toFixed_2_zero
  by (simp add: forecastPoint_def Let_def projectLoop_zero jsub_def del: toFixed.simps(1))

lemma confidenceInterval_zero:
  "confidenceInterval
     \<lparr>months_ahead = real h, projected_monthly_orders = Fin 0,
      projected_monthly_revenue = ''0.00'', projected_monthly_sessions = Fin 0,
      growth_from_current = ''NaN''\<rparr>
     = \<lparr>ci_months_ahead = real h, revenue_low = ''0.00'', revenue_high = ''0.00''\<rparr>"
  using toFixed_2_zero
  by (simp add: confidenceInterval_def parseFloat_zero jsub_def del: toFixed.simps(1))

lemma baseline_no_orders:
  "avgMonthlyOrders [] = Fin 0" "avgMonthlyRevenue [] = Fin 0"
  "baseGrowthRate [] sc = Fin (growthMultipliers sc)"
  by (simp_all add: avgMonthlyOrders_def avgMonthlyRevenue_def baseGrowthRate_def momGrowth_def
      sortedMonths_def monthlyData_def ofNat_def)

text \<open>
  Claim C5 with no order in the window. The two baselines are 0 and the rate is the
  constant of the scenario. Every forecast point then has 0 projected orders and the
  revenue \<^verbatim>\<open>"0.00"\<close>, and its band is \<^verbatim>\<open>"0.00"\<close> to \<^verbatim>\<open>"0.00"\<close>, for every horizon, rate
  and seasonality setting. The growth of the point is \<^verbatim>\<open>projectedRevenue / avgMonthlyRevenue\<close>,
  a division of 0 by 0 without a guard: it is NaN and the field is the string \<^verbatim>\<open>"NaN"\<close>.
\<close>

theorem forecast_zero_orders:
  "avgMonthlyOrders [] = Fin 0 \<and> avgMonthlyRevenue [] = Fin 0
   \<and> baseGrowthRate [] sc = Fin (growthMultipliers sc)
   \<and> forecastPoint now (Fin 0) (Fin 0) (Fin r) seas (real h)
       = \<lparr>months_ahead = real h, projected_monthly_orders = Fin 0,
          projected_monthly_revenue = ''0.00'', projected_monthly_sessions = Fin 0,
          growth_from_current = ''NaN''\<rparr>
   \<and> confidenceInterval (forecastPoint now (Fin 0) (Fin 0) (Fin r) seas (real h))
       = \<lparr>ci_months_ahead = real h, revenue_low = ''0.00'', revenue_high = ''0.00''\<rparr>
   \<and> (case shopify_forecast jan15 [] default_forecast_months Moderate True of
         Inl e \<Rightarrow> False
       | Inr res \<Rightarrow>
           map projected_monthly_orders (forecasts res) = [Fin 0, Fin 0, Fin 0, Fin 0]
           \<and> map revenue_low (confidence_intervals res) = [''0.00'', ''0.00'', ''0.00'', ''0.00'']
           \<and> map revenue_high (confidence_intervals res) = [''0.00'', ''0.00'', ''0.00'', ''0.00'']
           \<and> map growth_from_current (forecasts res) = [''NaN'', ''NaN'', ''NaN'', ''NaN''])"
proof -
  have v: "list_all (\<lambda>monthsAhead. validTime (real_of_int jan15 + monthsAhead * 30 * msPerDay))
             default_forecast_months"
    by (simp add: default_forecast_months_def validTime_def jan15_def msPerDay_def)
  have p: "forecastPoint jan15 (Fin 0) (Fin 0) (Fin 0.05) True m
     = \<lparr>months_ahead = m, projected_monthly_orders = Fin 0,
        projected_monthly_revenue = ''0.00'', projected_monthly_sessions = Fin 0,
        growth_from_current = ''NaN''\<rparr>" if "m \<in> set default_forecast_months" for m
  proof -
    from that have "m = real 1 \<or> m = real 3 \<or> m = real 6 \<or> m = real 12"
      by (simp add: default_forecast_months_def)
    then show ?thesis
      using forecastPoint_zero [where now = jan15 and r = "0.05" and seas = True and h = 1]
        forecastPoint_zero [where now = jan15 and r = "0.05" and seas = True and h = 3]
        forecastPoint_zero [where now = jan15 and r = "0.05" and seas = True and h = 6]
        forecastPoint_zero [where now = jan15 and r = "0.05" and seas = True and h = 12]
      by (elim disjE) simp_all
  qed
  have c: "confidenceInterval
     \<lparr>months_ahead = m, projected_monthly_orders = Fin 0,
      projected_monthly_revenue = ''0.00'', projected_monthly_sessions = Fin 0,
      growth_from_current = ''NaN''\<rparr>
     = \<lparr>ci_months_ahead = m, revenue_low = ''0.00'', revenue_high = ''0.00''\<rparr>"
     if "m \<in> set default_forecast_months" for m
  proof -
    from that have "m = real 1 \<or> m = real 3 \<or> m = real 6 \<or> m = real 12"
      by (simp add: default_forecast_months_def)
    then show ?thesis
      using confidenceInterval_zero [of 1] confidenceInterval_zero [of 3]
        confidenceInterval_zero [of 6] confidenceInterval_zero [of 12]
      by (elim disjE) simp_all
  qed
  have s: "(case shopify_forecast jan15 [] default_forecast_months Moderate True of
         Inl e \<Rightarrow> False
       | Inr res \<Rightarrow>
           map projected_monthly_orders (forecasts res) = [Fin 0, Fin 0, Fin 0, Fin 0]
           \<and> map revenue_low (confidence_intervals res) = [''0.00'', ''0.00'', ''0.00'', ''0.00'']
           \<and> map revenue_high (confidence_intervals res) = [''0.00'', ''0.00'', ''0.00'', ''0.00'']
           \<and> map growth_from_current (forecasts res) = [''NaN'', ''NaN'', ''NaN'', ''NaN''])"
    using v p c
    by (simp add: shopify_forecast_def baseline_no_orders Let_def)
       (simp add: default_forecast_months_def)
  show ?thesis
    using s forecastPoint_zero confidenceInterval_zero baseline_no_orders by simp
qed

subsection \<open>Growth Forecaster: the confidence band\<close>








lemma Math_sqrt_nonneg: "0 \<le> m \<Longrightarrow> Math_sqrt (Fin m) = Fin (sqrt m)"
  by simp









subsection \<open>Growth Forecaster: the baseline of valid orders\<close>







subsection \<open>Growth Forecaster: widening of the band\<close>
















subsection \<open>Product Velocity Ranker\<close>

lemma keys_upsertItem:
  "map fst (upsertItem m item)
     = (if productId item \<in> set (map fst m) then map fst m else map fst m @ [productId item])"
proof (induction m)
  case Nil
  show ?case by simp
next
  case (Cons e m)
  obtain k st where e: "e = (k, st)" by (cases e)
  show ?case
  proof (cases "k = productId item")
    case True
    then show ?thesis by (simp add: e)
  next
    case False
    then show ?thesis using Cons.IH by (auto simp: e)
  qed
qed

lemma keys_addItem:
  "map fst (addItem m item)
     = (if productId item \<in> set inheritedKeys \<or> productId item \<in> set (map fst m) then map fst m
        else map fst m @ [productId item])"
  by (simp add: addItem_def keys_upsertItem)

lemma first_occurrences_snoc:
  "rev (remdups (rev (xs @ [x])))
     = (if x \<in> set xs then rev (remdups (rev xs)) else rev (remdups (rev xs)) @ [x])"
  by simp

lemma keys_foldl_addItem:
  "map fst (foldl addItem [] items)
     = rev (remdups (rev (filter (\<lambda>k. k \<notin> set inheritedKeys) (map productId items))))"
proof (induction items rule: rev_induct)
  case Nil
  then show ?case by simp
next
  case (snoc item items)
  let ?K = "filter (\<lambda>k. k \<notin> set inheritedKeys) (map productId items)"
  let ?R = "rev (remdups (rev ?K))"
  have s: "set (map fst (foldl addItem [] items)) = set ?K"
    by (simp only: snoc.IH set_rev set_remdups)
  have step: "map fst (foldl addItem [] (items @ [item]))
          = (if productId item \<in> set inheritedKeys \<or> productId item \<in> set ?K then ?R
             else ?R @ [productId item])"
    using keys_addItem [of "foldl addItem [] items" item] s snoc.IH by simp
  show ?case
  proof (cases "productId item \<in> set inheritedKeys")
    case True
    then show ?thesis using step by simp
  next
    case False
    then have "filter (\<lambda>k. k \<notin> set inheritedKeys) (map productId (items @ [item]))
                 = ?K @ [productId item]"
      by simp
    then show ?thesis
      using step False by (simp only: first_occurrences_snoc) simp
  qed
qed

lemma productStats_insertion_order: "map fst (productStats orders) = insertionOrder orders"
  by (simp add: productStats_def insertionOrder_def keys_foldl_addItem)

text \<open>
  \<^verbatim>\<open>Object.entries\<close> moves the entries whose key is an array index to the front. Such an
  entry has no stock when the products carry Shopify identifiers: its key is the title
  of a custom item.
\<close>

lemma shopify_id_no_index: "startsWith k ''gid://shopify/Product/'' \<Longrightarrow> \<not> isArrayIndex k"
  by (cases k) (auto simp: isArrayIndex_def isDigit_def)

lemma index_key_no_stock:
  assumes "hasShopifyId item" and "isArrayIndex (productId item)"
  shows "itemInventory item = 0"
proof (cases "product item")
  case None
  then show ?thesis by (simp add: itemInventory_def)
next
  case (Some p)
  with assms(1) have g: "startsWith (ref_id p) ''gid://shopify/Product/''"
    by (simp add: hasShopifyId_def)
  then have "ref_id p \<noteq> []" by auto
  then have "productId item = ref_id p" using Some by (simp add: productId_def orDefault_def)
  with assms(2) shopify_id_no_index [OF g] show ?thesis by simp
qed

lemma upsertItem_index_stock:
  assumes "\<forall>e\<in>set m. isArrayIndex (fst e) \<longrightarrow> inventory (snd e) = 0"
    and "isArrayIndex (productId item) \<longrightarrow> itemInventory item = 0"
  shows "\<forall>e\<in>set (upsertItem m item). isArrayIndex (fst e) \<longrightarrow> inventory (snd e) = 0"
  using assms
proof (induction m)
  case Nil
  then show ?case by (simp add: addToStat_def newStat_def)
next
  case (Cons e m)
  obtain k st where e: "e = (k, st)" by (cases e)
  show ?case
  proof (cases "k = productId item")
    case True
    then show ?thesis using Cons.prems by (simp add: e addToStat_def)
  next
    case False
    then show ?thesis using Cons by (simp add: e)
  qed
qed

lemma foldl_addItem_index_stock:
  assumes "list_all hasShopifyId items"
  shows "\<forall>e\<in>set (foldl addItem [] items). isArrayIndex (fst e) \<longrightarrow> inventory (snd e) = 0"
  using assms
proof (induction items rule: rev_induct)
  case Nil
  then show ?case by simp
next
  case (snoc item items)
  then have IH: "\<forall>e\<in>set (foldl addItem [] items). isArrayIndex (fst e) \<longrightarrow> inventory (snd e) = 0"
    and h: "hasShopifyId item"
    by simp_all
  have "isArrayIndex (productId item) \<longrightarrow> itemInventory item = 0"
    using index_key_no_stock [OF h] by blast
  from upsertItem_index_stock [OF IH this]
  have U: "\<forall>e\<in>set (upsertItem (foldl addItem [] items) item).
             isArrayIndex (fst e) \<longrightarrow> inventory (snd e) = 0" .
  have f: "foldl addItem [] (items @ [item]) = addItem (foldl addItem [] items) item"
    by simp
  show ?case
  proof (cases "productId item \<in> set inheritedKeys")
    case True
    then have "addItem (foldl addItem [] items) item = foldl addItem [] items"
      by (simp add: addItem_def)
    with IH show ?thesis by (simp only: f)
  next
    case False
    then have "addItem (foldl addItem [] items) item = upsertItem (foldl addItem [] items) item"
      by (simp add: addItem_def)
    with U show ?thesis by (simp only: f)
  qed
qed

lemma filter_map_filter:
  "\<forall>x\<in>set xs. \<not> Q x \<longrightarrow> \<not> P (f x) \<Longrightarrow> filter P (map f (filter Q xs)) = filter P (map f xs)"
  by (induction xs) simp_all

lemma filter_objectEntries:
  assumes "\<forall>e\<in>set m. isArrayIndex (fst e) \<longrightarrow> \<not> P (productRow e)"
  shows "filter P (map productRow (objectEntries m)) = filter P (map productRow m)"
proof -
  let ?ix = "sort_key (\<lambda>e. natOfDigits (fst e)) (filter (\<lambda>e. isArrayIndex (fst e)) m)"
  have "\<forall>e\<in>set ?ix. \<not> P (productRow e)" using assms by simp
  then have 1: "filter P (map productRow ?ix) = []"
    by (simp add: filter_empty_conv)
  have 2: "filter P (map productRow (filter (\<lambda>e. \<not> isArrayIndex (fst e)) m))
             = filter P (map productRow m)"
    using assms by (intro filter_map_filter) simp
  show ?thesis by (simp add: objectEntries_def 1 2)
qed

lemma candidates_need_stock:
  "restockCandidate (productRow e) \<Longrightarrow> inventory (snd e) \<noteq> 0"
  "promotionCandidate (productRow e) \<Longrightarrow> inventory (snd e) \<noteq> 0"
  by (auto simp: restockCandidate_def promotionCandidate_def productRow_def)

lemma candidates_in_insertion_order:
  assumes "shopifyIds orders"
  shows "filter restockCandidate (products orders)
           = filter restockCandidate (map productRow (productStats orders))"
    and "filter promotionCandidate (products orders)
           = filter promotionCandidate (map productRow (productStats orders))"
proof -
  have i: "\<forall>e\<in>set (productStats orders). isArrayIndex (fst e) \<longrightarrow> inventory (snd e) = 0"
    using assms foldl_addItem_index_stock [of "concat orders"]
    by (simp add: shopifyIds_def productStats_def)
  have "\<forall>e\<in>set (productStats orders). isArrayIndex (fst e) \<longrightarrow> \<not> restockCandidate (productRow e)"
    using i candidates_need_stock(1) by blast
  then show "filter restockCandidate (products orders)
           = filter restockCandidate (map productRow (productStats orders))"
    unfolding products_def by (rule filter_objectEntries)
  have "\<forall>e\<in>set (productStats orders). isArrayIndex (fst e) \<longrightarrow> \<not> promotionCandidate (productRow e)"
    using i candidates_need_stock(2) by blast
  then show "filter promotionCandidate (products orders)
           = filter promotionCandidate (map productRow (productStats orders))"
    unfolding products_def by (rule filter_objectEntries)
qed

text \<open>
  Claim C10. Each of the two opportunity lists is the first five products, in the order
  of \<open>products\<close>, that satisfy its condition, so each has at most five entries and
  further products that qualify are left out. The aggregation keeps its entries in the
  order in which it inserted the keys, the order of the first occurrence of each key.
  The order of \<open>products\<close> is that of \<^verbatim>\<open>Object.entries\<close>, which moves the keys that are
  array indices to the front. With the identifiers that Shopify gives to products, such
  a key can only be the title of a custom item, which has no stock and satisfies
  neither condition: each list is the first five products that satisfy its condition in
  the order of insertion.
\<close>

theorem opportunities_truncated:
  "length (restock_soon (shopify_product_performance orders)) \<le> 5
   \<and> length (consider_promotion (shopify_product_performance orders)) \<le> 5
   \<and> restock_soon (shopify_product_performance orders)
       = take 5 (filter (\<lambda>p. 0 < inventory (stats p) \<and> inventory (stats p) < 10 \<and> 0.5 < velocity p)
                   (products orders))
   \<and> consider_promotion (shopify_product_performance orders)
       = take 5 (filter (\<lambda>p. 50 < inventory (stats p) \<and> velocity p < 0.1) (products orders))
   \<and> map fst (productStats orders) = insertionOrder orders
   \<and> (shopifyIds orders \<longrightarrow>
        restock_soon (shopify_product_performance orders)
          = take 5 (filter (\<lambda>p. 0 < inventory (stats p) \<and> inventory (stats p) < 10
                                \<and> 0.5 < velocity p)
                      (map productRow (productStats orders)))
        \<and> consider_promotion (shopify_product_performance orders)
          = take 5 (filter (\<lambda>p. 50 < inventory (stats p) \<and> velocity p < 0.1)
                      (map productRow (productStats orders))))"
proof -
  have r: "restockCandidate
             = (\<lambda>p. 0 < inventory (stats p) \<and> inventory (stats p) < 10 \<and> 0.5 < velocity p)"
    by (rule ext) (rule restockCandidate_def)
  have p: "promotionCandidate = (\<lambda>p. 50 < inventory (stats p) \<and> velocity p < 0.1)"
    by (rule ext) (rule promotionCandidate_def)
  have a: "restock_soon (shopify_product_performance orders)
             = take 5 (filter restockCandidate (products orders))"
    "consider_promotion (shopify_product_performance orders)
             = take 5 (filter promotionCandidate (products orders))"
    by (simp_all add: shopify_product_performance_def lowInventoryHighVelocity_def
        highInventoryLowVelocity_def)
  have l: "length (restock_soon (shopify_product_performance orders)) \<le> 5"
    "length (consider_promotion (shopify_product_performance orders)) \<le> 5"
    unfolding a by simp_all
  have b: "restock_soon (shopify_product_performance orders)
             = take 5 (filter restockCandidate (map productRow (productStats orders)))"
    "consider_promotion (shopify_product_performance orders)
             = take 5 (filter promotionCandidate (map productRow (productStats orders)))"
    if "shopifyIds orders"
    using candidates_in_insertion_order [OF that] by (simp_all only: a)
  show ?thesis
    using l a [unfolded r p] b [unfolded r p] productStats_insertion_order [of orders]
    by blast
qed

lemma addItem_examples:
  "addItem m (exampleItem n q stock) = upsertItem m (exampleItem n q stock)"
  "addItem m (customItem ''Gift wrap'' q) = upsertItem m (customItem ''Gift wrap'' q)"
  "addItem m (customItem ''2024'' q) = upsertItem m (customItem ''2024'' q)"
  "addItem m (customItem ''constructor'' q) = m"
  by (simp_all add: addItem_def inheritedKeys_def exampleItem_def customItem_def productId_def
      orDefault_def)

lemma example_upserts:
  "productStats sixProducts = foldl upsertItem [] (concat sixProducts)"
  "productStats mixedItems
     = foldl upsertItem []
         [exampleItem ''7'' 4 5, customItem ''Gift wrap'' 1, customItem ''2024'' 2,
          exampleItem ''8'' 3 5]"
  by (simp_all add: productStats_def sixProducts_def mixedItems_def addItem_examples)

lemmas product_defs = exampleItem_def customItem_def
  addToStat_def newStat_def productId_def productTitle_def itemInventory_def

lemma sixProducts_ids: "shopifyIds sixProducts"
  by (simp add: shopifyIds_def hasShopifyId_def sixProducts_def exampleItem_def)

lemma mixedItems_ids: "shopifyIds mixedItems"
  by (simp add: shopifyIds_def hasShopifyId_def mixedItems_def exampleItem_def customItem_def)

lemma sixProducts_stats:
  "map (\<lambda>e. (fst e, units_sold (snd e), inventory (snd e))) (productStats sixProducts)
     = [(''gid://shopify/Product/1'', 4, 5), (''gid://shopify/Product/2'', 3, 5),
        (''gid://shopify/Product/3'', 3, 5), (''gid://shopify/Product/4'', 3, 5),
        (''gid://shopify/Product/5'', 3, 5), (''gid://shopify/Product/6'', 3, 5)]"
  "map fst (productStats sixProducts)
     = [''gid://shopify/Product/1'', ''gid://shopify/Product/2'', ''gid://shopify/Product/3'',
        ''gid://shopify/Product/4'', ''gid://shopify/Product/5'', ''gid://shopify/Product/6'']"
  unfolding example_upserts by (simp_all add: sixProducts_def product_defs orDefault_def)

lemma sixProducts_restock:
  "map product_id (take 5 (filter restockCandidate (map productRow (productStats sixProducts))))
     = [''1'', ''2'', ''3'', ''4'', ''5'']"
  "length (filter restockCandidate (map productRow (productStats sixProducts))) = 6"
  "filter promotionCandidate (map productRow (productStats sixProducts)) = []"
  unfolding example_upserts
  by (simp_all add: sixProducts_def product_defs orDefault_def parse_defs productRow_def
      restockCandidate_def promotionCandidate_def)

text \<open>
  With custom items among the line items: the title \<^verbatim>\<open>2024\<close> is an array index and comes
  first in \<open>products\<close>, the title \<^verbatim>\<open>constructor\<close> names an inherited member and gets no entry,
  and the restock list still has the two products in the order of their insertion.
\<close>

lemma mixedItems_products:
  "map fst (productStats mixedItems)
     = [''gid://shopify/Product/7'', ''Gift wrap'', ''2024'', ''gid://shopify/Product/8'']"
  "map product_id (products mixedItems) = [''2024'', ''7'', ''Gift wrap'', ''8'']"
  "map product_id (take 5 (filter restockCandidate (map productRow (productStats mixedItems))))
     = [''7'', ''8'']"
  unfolding products_def example_upserts
  by (simp_all add: product_defs orDefault_def parse_defs productRow_def
      objectEntries_def isArrayIndex_def isDigit_def natOfDigits_def digitVal_def
      restockCandidate_def)

theorem opportunities_truncated_witness:
  "shopifyIds sixProducts
   \<and> insertionOrder sixProducts
       = [''gid://shopify/Product/1'', ''gid://shopify/Product/2'', ''gid://shopify/Product/3'',
          ''gid://shopify/Product/4'', ''gid://shopify/Product/5'', ''gid://shopify/Product/6'']
   \<and> length (filter restockCandidate (map productRow (productStats sixProducts))) = 6
   \<and> map product_id (restock_soon (shopify_product_performance sixProducts))
       = [''1'', ''2'', ''3'', ''4'', ''5'']
   \<and> consider_promotion (shopify_product_performance sixProducts) = []
   \<and> shopifyIds mixedItems
   \<and> insertionOrder mixedItems
       = [''gid://shopify/Product/7'', ''Gift wrap'', ''2024'', ''gid://shopify/Product/8'']
   \<and> map product_id (products mixedItems) = [''2024'', ''7'', ''Gift wrap'', ''8'']
   \<and> map product_id (restock_soon (shopify_product_performance mixedItems)) = [''7'', ''8'']"
proof -
  from opportunities_truncated [of sixProducts] sixProducts_ids
  have k: "map fst (productStats sixProducts) = insertionOrder sixProducts"
    and r: "restock_soon (shopify_product_performance sixProducts)
       = take 5 (filter (\<lambda>p. 0 < inventory (stats p) \<and> inventory (stats p) < 10 \<and> 0.5 < velocity p)
                   (map productRow (productStats sixProducts)))"
    and c: "consider_promotion (shopify_product_performance sixProducts)
       = take 5 (filter (\<lambda>p. 50 < inventory (stats p) \<and> velocity p < 0.1)
                   (map productRow (productStats sixProducts)))"
    by blast+
  from opportunities_truncated [of mixedItems] mixedItems_ids
  have k2: "map fst (productStats mixedItems) = insertionOrder mixedItems"
    and r2: "restock_soon (shopify_product_performance mixedItems)
       = take 5 (filter (\<lambda>p. 0 < inventory (stats p) \<and> inventory (stats p) < 10 \<and> 0.5 < velocity p)
                   (map productRow (productStats mixedItems)))"
    by blast+
  have r': "restock_soon (shopify_product_performance sixProducts)
       = take 5 (filter restockCandidate (map productRow (productStats sixProducts)))"
    unfolding r by (simp only: restockCandidate_def [abs_def])
  have c': "consider_promotion (shopify_product_performance sixProducts)
       = take 5 (filter promotionCandidate (map productRow (productStats sixProducts)))"
    unfolding c by (simp only: promotionCandidate_def [abs_def])
  have r2': "restock_soon (shopify_product_performance mixedItems)
       = take 5 (filter restockCandidate (map productRow (productStats mixedItems)))"
    unfolding r2 by (simp only: restockCandidate_def [abs_def])
  show ?thesis
    using sixProducts_ids mixedItems_ids sixProducts_stats(2) sixProducts_restock
      mixedItems_products
    by (simp only: r' c' r2' k [symmetric] k2 [symmetric]) simp
qed

end
